theory Spec2Isabelle
  imports Main "HOL-Library.Sublist"
begin

section \<open>Strings and arrays of the runtime\<close>

text \<open>
  A JavaScript string is modelled as a \<^typ>\<open>string\<close>: a list of code units, here the
  code units below 256. The string methods the client uses are written out:
  \<^verbatim>\<open>s.startsWith(p)\<close>, \<^verbatim>\<open>xs.join(sep)\<close>, \<^verbatim>\<open>s.trim()\<close> and \<^verbatim>\<open>s.replace(/\/$/, '')\<close>.
\<close>

definition startsWith :: "string \<Rightarrow> string \<Rightarrow> bool" where
  "startsWith s p = prefix p s"

fun join :: "string \<Rightarrow> string list \<Rightarrow> string" where
  "join sep [] = []"
| "join sep [x] = x"
| "join sep (x # y # ys) = x @ sep @ join sep (y # ys)"

text \<open>
  The white space and line terminators that \<^verbatim>\<open>trim\<close> removes, among the code units
  below 256: TAB, LF, VT, FF, CR, SP and NBSP.
\<close>

definition WhiteSpace :: "char \<Rightarrow> bool" where
  "WhiteSpace c = (of_char c \<in> {9, 10, 11, 12, 13, 32, 160 :: nat})"

definition trim :: "string \<Rightarrow> string" where
  "trim s = rev (dropWhile WhiteSpace (rev (dropWhile WhiteSpace s)))"

text \<open>\<^verbatim>\<open>url.replace(/\/$/, '')\<close>: one slash at the very end of the string is removed.\<close>

definition replace_trailing_slash :: "string \<Rightarrow> string" where
  "replace_trailing_slash s = (if s \<noteq> [] \<and> last s = CHR ''/'' then butlast s else s)"

text \<open>\<^verbatim>\<open>b.toString()\<close> of a boolean.\<close>

definition Boolean_toString :: "bool \<Rightarrow> string" where
  "Boolean_toString b = (if b then ''true'' else ''false'')"

section \<open>Errors and promises\<close>

text \<open>
  \<^verbatim>\<open>RequestError\<close> is the class of the source, with its fields \<^verbatim>\<open>code\<close> and
  \<^verbatim>\<open>message\<close>. \<open>TypeError\<close> is what the runtime's \<^verbatim>\<open>URL\<close>, \<^verbatim>\<open>Headers\<close> and
  \<^verbatim>\<open>fetch\<close> throw, \<open>SystemError\<close> what \<^verbatim>\<open>fs.readFileSync\<close> throws.
\<close>

datatype error =
    RequestError (code: int) (message: string)
  | TypeError string
  | SystemError string

text \<open>
  The state of the promise an \<^verbatim>\<open>async\<close> method returns: fulfilled with a value,
  rejected with the error thrown, or never settled.
\<close>

datatype 'a promise = Resolved 'a | Rejected error | Pending

fun then_promise :: "('a \<Rightarrow> 'b) \<Rightarrow> 'a promise \<Rightarrow> 'b promise" where
  "then_promise f (Resolved x) = Resolved (f x)"
| "then_promise f (Rejected e) = Rejected e"
| "then_promise f Pending = Pending"

section \<open>The runtime's URL class\<close>

text \<open>
  \<^verbatim>\<open>URL\<close> belongs to the runtime, not to the repository. The model covers the URLs
  that the runtime's parser leaves as they are written: scheme \<^verbatim>\<open>http\<close> or
  \<^verbatim>\<open>https\<close>, then \<^verbatim>\<open>//\<close>, a host of dot-separated labels of lower-case letters
  and digits whose last label starts with a letter, an optional decimal port without
  leading zero (dropped when it is the scheme's default), and a path of letters, digits,
  \<^verbatim>\<open>/\<close>, \<^verbatim>\<open>-\<close> and \<^verbatim>\<open>_\<close>. A relative reference is a path of the same characters.
  On any other input the model answers \<open>None\<close>: there the runtime either throws
  \<^verbatim>\<open>TypeError\<close> or normalises the input (case, IPv4 numbers, dot segments, percent
  encoding), which is not modelled. The functions of the client turn \<open>None\<close> into the
  \<^verbatim>\<open>TypeError\<close>; no property below is about that case.
\<close>

record URL =
  protocol :: string
  hostname :: string
  port :: "string option"
  pathname :: string
  url_search :: "string option"

definition ascii_lower_alpha :: "char \<Rightarrow> bool" where
  "ascii_lower_alpha c = (97 \<le> (of_char c :: nat) \<and> (of_char c :: nat) \<le> 122)"

definition ascii_upper_alpha :: "char \<Rightarrow> bool" where
  "ascii_upper_alpha c = (65 \<le> (of_char c :: nat) \<and> (of_char c :: nat) \<le> 90)"

definition ascii_digit :: "char \<Rightarrow> bool" where
  "ascii_digit c = (48 \<le> (of_char c :: nat) \<and> (of_char c :: nat) \<le> 57)"

definition plain_path_char :: "char \<Rightarrow> bool" where
  "plain_path_char c =
     (ascii_lower_alpha c \<or> ascii_upper_alpha c \<or> ascii_digit c
      \<or> c = CHR ''/'' \<or> c = CHR ''-'' \<or> c = CHR ''_'')"

text \<open>\<^verbatim>\<open>s.split(sep)\<close> for a separator of one character.\<close>

fun split :: "char \<Rightarrow> string \<Rightarrow> string list" where
  "split sep [] = [[]]"
| "split sep (c # cs) =
     (if c = sep then [] # split sep cs
      else (case split sep cs of [] \<Rightarrow> [[c]] | l # ls \<Rightarrow> (c # l) # ls))"

definition plain_host :: "string \<Rightarrow> bool" where
  "plain_host h =
     (let labels = split (CHR ''.'') h
      in list_all (\<lambda>l. l \<noteq> [] \<and> list_all (\<lambda>c. ascii_lower_alpha c \<or> ascii_digit c) l) labels
         \<and> ascii_lower_alpha (hd (last labels)))"

definition decimal_value :: "string \<Rightarrow> nat" where
  "decimal_value ds = foldl (\<lambda>n c. 10 * n + (of_char c - 48)) 0 ds"

definition default_port :: "string \<Rightarrow> nat" where
  "default_port proto = (if proto = ''https:'' then 443 else 80)"

text \<open>
  The port part of an authority, with its colon. The result \<open>Some None\<close> is a URL
  without port.
\<close>

definition parse_port :: "string \<Rightarrow> string \<Rightarrow> string option option" where
  "parse_port proto p =
     (case p of
        [] \<Rightarrow> Some None
      | c # ds \<Rightarrow>
          if ds = [] then Some None
          else if \<not> list_all ascii_digit ds \<or> hd ds = CHR ''0'' \<or> 65535 < decimal_value ds
            then None
          else if decimal_value ds = default_port proto then Some None
          else Some (Some ds))"

definition parse_special :: "string \<Rightarrow> string \<Rightarrow> URL option" where
  "parse_special proto rest =
     (let authority = takeWhile (\<lambda>c. c \<noteq> CHR ''/'') rest;
          path = dropWhile (\<lambda>c. c \<noteq> CHR ''/'') rest;
          h = takeWhile (\<lambda>c. c \<noteq> CHR '':'') authority;
          p = dropWhile (\<lambda>c. c \<noteq> CHR '':'') authority
      in if \<not> plain_host h \<or> \<not> list_all plain_path_char path then None
         else (case parse_port proto p of
                 None \<Rightarrow> None
               | Some prt \<Rightarrow>
                   Some \<lparr>protocol = proto, hostname = h, port = prt,
                         pathname = (if path = [] then ''/'' else path), url_search = None\<rparr>))"

definition URL_parse :: "string \<Rightarrow> URL option" where
  "URL_parse input =
     (if startsWith input ''http://'' then parse_special ''http:'' (drop 7 input)
      else if startsWith input ''https://'' then parse_special ''https:'' (drop 8 input)
      else None)"

text \<open>The path of the base up to and including its last slash.\<close>

definition shorten_path :: "string \<Rightarrow> string" where
  "shorten_path p = rev (dropWhile (\<lambda>c. c \<noteq> CHR ''/'') (rev p))"

text \<open>\<^verbatim>\<open>new URL(input)\<close> and \<^verbatim>\<open>new URL(input, base)\<close>.\<close>

definition URL_new :: "string \<Rightarrow> string option \<Rightarrow> URL option" where
  "URL_new input base =
     (case base of
        None \<Rightarrow> URL_parse input
      | Some b \<Rightarrow>
          (case URL_parse b of
             None \<Rightarrow> None
           | Some u \<Rightarrow>
               if input = [] \<or> \<not> list_all plain_path_char input \<or> startsWith input ''//''
                 then None
               else if hd input = CHR ''/''
                 then Some (u\<lparr>pathname := input, url_search := None\<rparr>)
               else Some (u\<lparr>pathname := shorten_path (pathname u) @ input, url_search := None\<rparr>)))"

definition URL_origin :: "URL \<Rightarrow> string" where
  "URL_origin u =
     protocol u @ ''//'' @ hostname u @ (case port u of None \<Rightarrow> [] | Some p \<Rightarrow> '':'' @ p)"

definition URL_href :: "URL \<Rightarrow> string" where
  "URL_href u =
     URL_origin u @ pathname u @ (case url_search u of None \<Rightarrow> [] | Some q \<Rightarrow> ''?'' @ q)"

text \<open>
  \<^verbatim>\<open>url.search = value\<close>: the empty string removes the query, one leading \<^verbatim>\<open>?\<close> is
  dropped. The setter percent-encodes the characters a query may not hold; the output of
  the query serialiser has none of them.
\<close>

definition URL_set_search :: "string \<Rightarrow> URL \<Rightarrow> URL" where
  "URL_set_search v u =
     (if v = [] then u\<lparr>url_search := None\<rparr>
      else u\<lparr>url_search := Some (if hd v = CHR ''?'' then tl v else v)\<rparr>)"

section \<open>Headers, bodies, requests and responses\<close>

text \<open>
  A \<^verbatim>\<open>Headers\<close> object is its list of name and value pairs, in the order of the
  \<^verbatim>\<open>append\<close> calls. \<^verbatim>\<open>append\<close> follows the Fetch standard: leading and trailing
  HTTP white space (TAB, LF, CR, SP) of the value is removed, and a value that holds NUL, LF
  or CR throws \<^verbatim>\<open>TypeError\<close>. The names the client appends are the literals
  \<^verbatim>\<open>Referer\<close> and \<^verbatim>\<open>Cookie\<close>, which are valid header names.
\<close>

type_synonym Headers = "(string \<times> string) list"

definition HTTP_whitespace :: "char \<Rightarrow> bool" where
  "HTTP_whitespace c = (of_char c \<in> {9, 10, 13, 32 :: nat})"

definition normalize_value :: "string \<Rightarrow> string" where
  "normalize_value v = rev (dropWhile HTTP_whitespace (rev (dropWhile HTTP_whitespace v)))"

definition header_value :: "string \<Rightarrow> bool" where
  "header_value v = list_all (\<lambda>c. of_char c \<notin> {0, 10, 13 :: nat}) v"

definition Headers_append :: "string \<Rightarrow> string \<Rightarrow> Headers \<Rightarrow> error + Headers" where
  "Headers_append name v hs =
     (if header_value (normalize_value v) then Inr (hs @ [(name, normalize_value v)])
      else Inl (TypeError ''Invalid header value''))"

text \<open>
  A value as a \<^verbatim>\<open>Headers\<close> object holds it, and as \<^verbatim>\<open>getSetCookie\<close> returns it:
  valid, and with nothing for \<^verbatim>\<open>append\<close> to strip.
\<close>

definition Headers_holds :: "string \<Rightarrow> bool" where
  "Headers_holds v = (header_value v \<and> normalize_value v = v)"

definition ascii_lowercase :: "string \<Rightarrow> string" where
  "ascii_lowercase s = map (\<lambda>c. if ascii_upper_alpha c then char_of (of_char c + 32 :: nat) else c) s"

text \<open>The values of all headers called \<open>name\<close>, in order; names compare without case.\<close>

definition Headers_values :: "string \<Rightarrow> Headers \<Rightarrow> string list" where
  "Headers_values name hs =
     map snd (filter (\<lambda>(n, v). ascii_lowercase n = ascii_lowercase name) hs)"

definition getSetCookie :: "Headers \<Rightarrow> string list" where
  "getSetCookie hs = Headers_values ''set-cookie'' hs"

text \<open>
  \<^verbatim>\<open>URLSearchParams\<close> and \<^verbatim>\<open>FormData\<close> are ordered lists of entries. \<^verbatim>\<open>set\<close>
  gives the first entry of that name the new value and removes the other entries of that
  name, or appends the entry when there is none; \<^verbatim>\<open>append\<close> adds at the end.
\<close>

fun entries_set :: "string \<Rightarrow> 'v \<Rightarrow> (string \<times> 'v) list \<Rightarrow> (string \<times> 'v) list" where
  "entries_set name v [] = [(name, v)]"
| "entries_set name v ((k, w) # es) =
     (if k = name then (name, v) # filter (\<lambda>(k', w'). k' \<noteq> name) es
      else (k, w) # entries_set name v es)"

definition entries_get :: "string \<Rightarrow> (string \<times> 'v) list \<Rightarrow> 'v option" where
  "entries_get name es = map_of es name"

definition entries_getAll :: "string \<Rightarrow> (string \<times> 'v) list \<Rightarrow> 'v list" where
  "entries_getAll name es = map snd (filter (\<lambda>(k, w). k = name) es)"

definition entries_has :: "string \<Rightarrow> (string \<times> 'v) list \<Rightarrow> bool" where
  "entries_has name es = (name \<in> set (map fst es))"

type_synonym URLSearchParams = "(string \<times> string) list"

record Blob =
  blob_bytes :: string
  blob_type :: string

datatype FormDataEntryValue = Field string | File Blob

type_synonym FormData = "(string \<times> FormDataEntryValue) list"

datatype BodyInit =
    FormDataBody FormData
  | URLSearchParamsBody URLSearchParams
  | StringBody string

datatype Method = GET | POST

text \<open>What \<^verbatim>\<open>callMethod\<close> passes to \<^verbatim>\<open>fetch\<close>.\<close>

record Request =
  request_url :: string
  request_method :: Method
  request_headers :: Headers
  request_body :: "BodyInit option"

text \<open>The response once \<^verbatim>\<open>response.text()\<close> has been awaited.\<close>

record Response =
  status :: int
  text_of :: string
  response_headers :: Headers

definition ok :: "Response \<Rightarrow> bool" where
  "ok response = (200 \<le> status response \<and> status response \<le> 299)"

section \<open>The client\<close>

datatype APINames = auth | app | log | sync | transfer | torrents | rss | search

fun APINames_value :: "APINames \<Rightarrow> string" where
  "APINames_value auth = ''auth''"
| "APINames_value app = ''app''"
| "APINames_value log = ''log''"
| "APINames_value sync = ''sync''"
| "APINames_value transfer = ''transfer''"
| "APINames_value torrents = ''torrents''"
| "APINames_value rss = ''rss''"
| "APINames_value search = ''search''"

record 'q CallMethodOptions =
  "method" :: "Method option"
  query :: "'q option"
  body :: "BodyInit option"
  headers :: "Headers option"

text \<open>
  The body of a \<^verbatim>\<open>CallMethodResponse\<close>: the parsed JSON value, or the raw text when
  the text is not JSON.
\<close>

datatype 'j Body = Json 'j | Text string

record 'j CallMethodResponse =
  cmr_body :: "'j Body"
  cmr_headers :: Headers

record QBittorrent =
  url :: string
  authCookie :: "string option"

text \<open>
  What the client takes from outside the repository: the remote server behind
  \<^verbatim>\<open>fetch\<close> (its answer to a request, given the requests sent before), \<^verbatim>\<open>JSON.parse\<close>
  (\<open>None\<close> when it throws), \<^verbatim>\<open>Number.prototype.toString\<close>, the \<^verbatim>\<open>qs\<close> library's
  \<^verbatim>\<open>stringify\<close> with \<^verbatim>\<open>arrayFormat: 'repeat'\<close>, and the file system.
\<close>

record ('j, 'n, 'q) runtime =
  server :: "Request list \<Rightarrow> Request \<Rightarrow> Response promise"
  JSON_parse :: "string \<Rightarrow> 'j option"
  Number_toString :: "'n \<Rightarrow> string"
  qs_stringify :: "'q \<Rightarrow> string"
  readFileSync :: "string \<Rightarrow> error + string"

text \<open>
  The state the methods act on: the client object and the requests sent to the server so
  far.
\<close>

type_synonym state = "QBittorrent \<times> Request list"

text \<open>
  The first half of \<^verbatim>\<open>callMethod\<close>, up to the call of \<^verbatim>\<open>fetch\<close>: the verb, the
  query string, the URL and the headers. \<^verbatim>\<open>qs.stringify(undefined)\<close> is the empty
  string.
\<close>

definition callMethod_request ::
  "('j, 'n, 'q) runtime \<Rightarrow> QBittorrent \<Rightarrow> APINames \<Rightarrow> string \<Rightarrow> 'q CallMethodOptions option
     \<Rightarrow> error + Request" where
  "callMethod_request env this apiName methodName options =
     (let method' = (case options of
                       None \<Rightarrow> GET
                     | Some opts \<Rightarrow> (case method opts of None \<Rightarrow> GET | Some m \<Rightarrow> m));
          query' = (case options of
                      None \<Rightarrow> []
                    | Some opts \<Rightarrow> (case query opts of None \<Rightarrow> [] | Some q \<Rightarrow> qs_stringify env q))
      in case URL_new (APINames_value apiName @ ''/'' @ methodName) (Some (url this)) of
           None \<Rightarrow> Inl (TypeError ''Invalid URL'')
         | Some url0 \<Rightarrow>
             let url' = (if query' \<noteq> [] then URL_set_search query' url0 else url0)
             in (case URL_new (url this) None of
                   None \<Rightarrow> Inl (TypeError ''Invalid URL'')
                 | Some base \<Rightarrow>
                     (case Headers_append ''Referer'' (URL_origin base) [] of
                        Inl e \<Rightarrow> Inl e
                      | Inr headers1 \<Rightarrow>
                          (case (case authCookie this of
                                   None \<Rightarrow> Inr headers1
                                 | Some cookie \<Rightarrow>
                                     if trim cookie \<noteq> []
                                       then Headers_append ''Cookie'' cookie headers1
                                     else Inr headers1) of
                             Inl e \<Rightarrow> Inl e
                           | Inr headers2 \<Rightarrow>
                               Inr \<lparr>request_url = URL_href url',
                                    request_method = method',
                                    request_headers = headers2,
                                    request_body = (case options of
                                                      None \<Rightarrow> None
                                                    | Some opts \<Rightarrow> body opts)\<rparr>))))"

text \<open>
  The second half of \<^verbatim>\<open>callMethod\<close>, from the response on: a status outside 200 to 299
  throws, otherwise the text is parsed as JSON and kept as it is when the parser throws.
\<close>

definition callMethod_response ::
  "('j, 'n, 'q) runtime \<Rightarrow> Response \<Rightarrow> 'j CallMethodResponse promise" where
  "callMethod_response env response =
     (let body' = text_of response
      in if \<not> ok response then Rejected (RequestError (status response) body')
         else (case JSON_parse env body' of
                 Some v \<Rightarrow> Resolved \<lparr>cmr_body = Json v, cmr_headers = response_headers response\<rparr>
               | None \<Rightarrow> Resolved \<lparr>cmr_body = Text body', cmr_headers = response_headers response\<rparr>))"

definition callMethod ::
  "('j, 'n, 'q) runtime \<Rightarrow> APINames \<Rightarrow> string \<Rightarrow> 'q CallMethodOptions option \<Rightarrow> state
     \<Rightarrow> 'j CallMethodResponse promise \<times> state" where
  "callMethod env apiName methodName options st =
     (case st of (this, sent) \<Rightarrow>
        (case callMethod_request env this apiName methodName options of
           Inl e \<Rightarrow> (Rejected e, (this, sent))
         | Inr request \<Rightarrow>
             (case server env sent request of
                Pending \<Rightarrow> (Pending, (this, sent @ [request]))
              | Rejected e \<Rightarrow> (Rejected e, (this, sent @ [request]))
              | Resolved response \<Rightarrow>
                  (callMethod_response env response, (this, sent @ [request])))))"

text \<open>
  \<^verbatim>\<open>new QBittorrent(url)\<close>; the default argument is \<^verbatim>\<open>'http://localhost:8080'\<close>.
\<close>

definition constructor :: "string option \<Rightarrow> error + QBittorrent" where
  "constructor url_arg =
     (let url' = (case url_arg of None \<Rightarrow> ''http://localhost:8080'' | Some u \<Rightarrow> u)
      in case URL_new ''/api/v2/'' (Some (replace_trailing_slash url')) of
           None \<Rightarrow> Inl (TypeError ''Invalid URL'')
         | Some u \<Rightarrow> Inr \<lparr>url = URL_href u, authCookie = None\<rparr>)"

text \<open>\<^verbatim>\<open>await this.callMethod(...)\<close> with the result dropped.\<close>

definition await_void :: "'a promise \<times> state \<Rightarrow> unit promise \<times> state" where
  "await_void r = (then_promise (\<lambda>_. ()) (fst r), snd r)"

text \<open>\<^verbatim>\<open>const { body } = await this.callMethod(...); return body\<close>.\<close>

definition await_body :: "'j CallMethodResponse promise \<times> state \<Rightarrow> 'j Body promise \<times> state" where
  "await_body r = (then_promise cmr_body (fst r), snd r)"

text \<open>The options \<^verbatim>\<open>{ method: 'POST', body }\<close> with a \<^verbatim>\<open>URLSearchParams\<close> body.\<close>

definition post :: "URLSearchParams \<Rightarrow> 'q CallMethodOptions option" where
  "post b = Some \<lparr>method = Some POST, query = None, body = Some (URLSearchParamsBody b), headers = None\<rparr>"

definition login ::
  "('j, 'n, 'q) runtime \<Rightarrow> string \<Rightarrow> string \<Rightarrow> state \<Rightarrow> unit promise \<times> state" where
  "login env username password st =
     (let requestBody = [(''username'', username), (''password'', password)]
      in case callMethod env auth ''login'' (post requestBody) st of
           (Resolved r, (this, sent)) \<Rightarrow>
             (Resolved (),
              (this\<lparr>authCookie :=
                      find (\<lambda>cookie. startsWith cookie ''SID='') (getSetCookie (cmr_headers r))\<rparr>,
               sent))
         | (Rejected e, st') \<Rightarrow> (Rejected e, st')
         | (Pending, st') \<Rightarrow> (Pending, st'))"

definition logout :: "('j, 'n, 'q) runtime \<Rightarrow> state \<Rightarrow> unit promise \<times> state" where
  "logout env st = await_void (callMethod env auth ''logout'' None st)"

definition getApplicationVersion :: "('j, 'n, 'q) runtime \<Rightarrow> state \<Rightarrow> 'j Body promise \<times> state" where
  "getApplicationVersion env st = await_body (callMethod env app ''version'' None st)"

section \<open>Operations on torrents\<close>

text \<open>
  The parameter type \<^verbatim>\<open>string[] | 'all'\<close>, and the expression
  \<^verbatim>\<open>Array.isArray(hashes) ? hashes.join('|') : hashes\<close> that every operation with such a
  parameter applies to it.
\<close>

datatype hashes = Hashes "string list" | All

fun hashes_field :: "hashes \<Rightarrow> string" where
  "hashes_field (Hashes hs) = join ''|'' hs"
| "hashes_field All = ''all''"

text \<open>A parameter \<^verbatim>\<open>flag: boolean = false\<close>.\<close>

definition default_false :: "bool option \<Rightarrow> bool" where
  "default_false flag = (case flag of None \<Rightarrow> False | Some b \<Rightarrow> b)"

text \<open>
  For each operation, the \<^verbatim>\<open>URLSearchParams\<close> it builds and the method itself. The
  entries of \<^verbatim>\<open>new URLSearchParams({...})\<close> are in the order of the object literal.
\<close>

definition pauseTorrents_body :: "string list \<Rightarrow> URLSearchParams" where
  "pauseTorrents_body hs = [(''hashes'', join ''|'' hs)]"

definition pauseTorrents :: "('j, 'n, 'q) runtime \<Rightarrow> string list \<Rightarrow> state \<Rightarrow> unit promise \<times> state" where
  "pauseTorrents env hs st =
     await_void (callMethod env torrents ''pause'' (post (pauseTorrents_body hs)) st)"

definition resumeTorrents_body :: "string list \<Rightarrow> URLSearchParams" where
  "resumeTorrents_body hs = [(''hashes'', join ''|'' hs)]"

definition resumeTorrents :: "('j, 'n, 'q) runtime \<Rightarrow> string list \<Rightarrow> state \<Rightarrow> unit promise \<times> state" where
  "resumeTorrents env hs st =
     await_void (callMethod env torrents ''resume'' (post (resumeTorrents_body hs)) st)"

definition deleteTorrents_body :: "hashes \<Rightarrow> bool option \<Rightarrow> URLSearchParams" where
  "deleteTorrents_body hs deleteFiles =
     [(''hashes'', hashes_field hs), (''deleteFiles'', Boolean_toString (default_false deleteFiles))]"

definition deleteTorrents ::
  "('j, 'n, 'q) runtime \<Rightarrow> hashes \<Rightarrow> bool option \<Rightarrow> state \<Rightarrow> unit promise \<times> state" where
  "deleteTorrents env hs deleteFiles st =
     await_void (callMethod env torrents ''delete'' (post (deleteTorrents_body hs deleteFiles)) st)"

definition recheckTorrents_body :: "string list \<Rightarrow> URLSearchParams" where
  "recheckTorrents_body hs = [(''hashes'', join ''|'' hs)]"

definition recheckTorrents :: "('j, 'n, 'q) runtime \<Rightarrow> string list \<Rightarrow> state \<Rightarrow> unit promise \<times> state" where
  "recheckTorrents env hs st =
     await_void (callMethod env torrents ''recheck'' (post (recheckTorrents_body hs)) st)"

definition reannounceTorrents_body :: "string list \<Rightarrow> URLSearchParams" where
  "reannounceTorrents_body hs = [(''hashes'', join ''|'' hs)]"

definition reannounceTorrents ::
  "('j, 'n, 'q) runtime \<Rightarrow> string list \<Rightarrow> state \<Rightarrow> unit promise \<times> state" where
  "reannounceTorrents env hs st =
     await_void (callMethod env torrents ''reannounce'' (post (reannounceTorrents_body hs)) st)"

definition addPeers_body :: "string list \<Rightarrow> string list \<Rightarrow> URLSearchParams" where
  "addPeers_body hs peers = [(''hashes'', join ''|'' hs), (''peers'', join ''|'' peers)]"

definition addPeers ::
  "('j, 'n, 'q) runtime \<Rightarrow> string list \<Rightarrow> string list \<Rightarrow> state \<Rightarrow> unit promise \<times> state" where
  "addPeers env hs peers st =
     await_void (callMethod env torrents ''addPeers'' (post (addPeers_body hs peers)) st)"

definition increaseTorrentPriority_body :: "hashes \<Rightarrow> URLSearchParams" where
  "increaseTorrentPriority_body hs = [(''hashes'', hashes_field hs)]"

definition increaseTorrentPriority ::
  "('j, 'n, 'q) runtime \<Rightarrow> hashes \<Rightarrow> state \<Rightarrow> unit promise \<times> state" where
  "increaseTorrentPriority env hs st =
     await_void (callMethod env torrents ''increasePrio'' (post (increaseTorrentPriority_body hs)) st)"

definition decreaseTorrentPriority_body :: "hashes \<Rightarrow> URLSearchParams" where
  "decreaseTorrentPriority_body hs = [(''hashes'', hashes_field hs)]"

definition decreaseTorrentPriority ::
  "('j, 'n, 'q) runtime \<Rightarrow> hashes \<Rightarrow> state \<Rightarrow> unit promise \<times> state" where
  "decreaseTorrentPriority env hs st =
     await_void (callMethod env torrents ''decreasePrio'' (post (decreaseTorrentPriority_body hs)) st)"

definition maximalTorrentPriority_body :: "hashes \<Rightarrow> URLSearchParams" where
  "maximalTorrentPriority_body hs = [(''hashes'', hashes_field hs)]"

definition maximalTorrentPriority ::
  "('j, 'n, 'q) runtime \<Rightarrow> hashes \<Rightarrow> state \<Rightarrow> unit promise \<times> state" where
  "maximalTorrentPriority env hs st =
     await_void (callMethod env torrents ''topPrio'' (post (maximalTorrentPriority_body hs)) st)"

definition minimalTorrentPriority_body :: "hashes \<Rightarrow> URLSearchParams" where
  "minimalTorrentPriority_body hs = [(''hashes'', hashes_field hs)]"

definition minimalTorrentPriority ::
  "('j, 'n, 'q) runtime \<Rightarrow> hashes \<Rightarrow> state \<Rightarrow> unit promise \<times> state" where
  "minimalTorrentPriority env hs st =
     await_void (callMethod env torrents ''bottomPrio'' (post (minimalTorrentPriority_body hs)) st)"

definition getTorrentDownloadLimit_body :: "hashes \<Rightarrow> URLSearchParams" where
  "getTorrentDownloadLimit_body hs = [(''hashes'', hashes_field hs)]"

definition getTorrentDownloadLimit ::
  "('j, 'n, 'q) runtime \<Rightarrow> hashes \<Rightarrow> state \<Rightarrow> 'j Body promise \<times> state" where
  "getTorrentDownloadLimit env hs st =
     await_body (callMethod env torrents ''downloadLimit'' (post (getTorrentDownloadLimit_body hs)) st)"

definition setTorrentDownloadLimit_body ::
  "('j, 'n, 'q) runtime \<Rightarrow> hashes \<Rightarrow> 'n \<Rightarrow> URLSearchParams" where
  "setTorrentDownloadLimit_body env hs limit =
     [(''hashes'', hashes_field hs), (''limit'', Number_toString env limit)]"

definition setTorrentDownloadLimit ::
  "('j, 'n, 'q) runtime \<Rightarrow> hashes \<Rightarrow> 'n \<Rightarrow> state \<Rightarrow> unit promise \<times> state" where
  "setTorrentDownloadLimit env hs limit st =
     await_void (callMethod env torrents ''setDownloadLimit''
                   (post (setTorrentDownloadLimit_body env hs limit)) st)"

record 'n SetTorrentShareLimitOptions =
  ratioLimit :: "'n option"
  seedingTimeLimit :: "'n option"

definition setTorrentShareLimit_body ::
  "('j, 'n, 'q) runtime \<Rightarrow> hashes \<Rightarrow> 'n SetTorrentShareLimitOptions \<Rightarrow> URLSearchParams" where
  "setTorrentShareLimit_body env hs options =
     (let body0 = [(''hashes'', hashes_field hs)];
          body1 = (case ratioLimit options of
                     None \<Rightarrow> body0
                   | Some r \<Rightarrow> entries_set ''ratioLimit'' (Number_toString env r) body0);
          body2 = (case seedingTimeLimit options of
                     None \<Rightarrow> body1
                   | Some t \<Rightarrow> entries_set ''ratioLimit'' (Number_toString env t) body1)
      in body2)"

definition setTorrentShareLimit ::
  "('j, 'n, 'q) runtime \<Rightarrow> hashes \<Rightarrow> 'n SetTorrentShareLimitOptions \<Rightarrow> state
     \<Rightarrow> unit promise \<times> state" where
  "setTorrentShareLimit env hs options st =
     await_void (callMethod env torrents ''setShareLimits''
                   (post (setTorrentShareLimit_body env hs options)) st)"

definition getTorrentUploadLimit_body :: "hashes \<Rightarrow> URLSearchParams" where
  "getTorrentUploadLimit_body hs = [(''hashes'', hashes_field hs)]"

definition getTorrentUploadLimit ::
  "('j, 'n, 'q) runtime \<Rightarrow> hashes \<Rightarrow> state \<Rightarrow> 'j Body promise \<times> state" where
  "getTorrentUploadLimit env hs st =
     await_body (callMethod env torrents ''uploadLimit'' (post (getTorrentUploadLimit_body hs)) st)"

definition setTorrentUploadLimit_body ::
  "('j, 'n, 'q) runtime \<Rightarrow> hashes \<Rightarrow> 'n \<Rightarrow> URLSearchParams" where
  "setTorrentUploadLimit_body env hs limit =
     [(''hashes'', hashes_field hs), (''limit'', Number_toString env limit)]"

definition setTorrentUploadLimit ::
  "('j, 'n, 'q) runtime \<Rightarrow> hashes \<Rightarrow> 'n \<Rightarrow> state \<Rightarrow> unit promise \<times> state" where
  "setTorrentUploadLimit env hs limit st =
     await_void (callMethod env torrents ''setUploadLimit''
                   (post (setTorrentUploadLimit_body env hs limit)) st)"

definition setTorrentLocation_body :: "hashes \<Rightarrow> string \<Rightarrow> URLSearchParams" where
  "setTorrentLocation_body hs location = [(''hashes'', hashes_field hs), (''location'', location)]"

definition setTorrentLocation ::
  "('j, 'n, 'q) runtime \<Rightarrow> hashes \<Rightarrow> string \<Rightarrow> state \<Rightarrow> unit promise \<times> state" where
  "setTorrentLocation env hs location st =
     await_void (callMethod env torrents ''setLocation'' (post (setTorrentLocation_body hs location)) st)"

definition setTorrentCategory_body :: "hashes \<Rightarrow> string \<Rightarrow> URLSearchParams" where
  "setTorrentCategory_body hs category = [(''hashes'', hashes_field hs), (''category'', category)]"

definition setTorrentCategory ::
  "('j, 'n, 'q) runtime \<Rightarrow> hashes \<Rightarrow> string \<Rightarrow> state \<Rightarrow> unit promise \<times> state" where
  "setTorrentCategory env hs category st =
     await_void (callMethod env torrents ''setCategory'' (post (setTorrentCategory_body hs category)) st)"

definition addTorrentTags_body :: "hashes \<Rightarrow> string list \<Rightarrow> URLSearchParams" where
  "addTorrentTags_body hs tags = [(''hashes'', hashes_field hs), (''tags'', join '','' tags)]"

definition addTorrentTags ::
  "('j, 'n, 'q) runtime \<Rightarrow> hashes \<Rightarrow> string list \<Rightarrow> state \<Rightarrow> unit promise \<times> state" where
  "addTorrentTags env hs tags st =
     await_void (callMethod env torrents ''addTags'' (post (addTorrentTags_body hs tags)) st)"

text \<open>
  \<^verbatim>\<open>removeTorrentTags(hashes, tags?)\<close>: \<open>None\<close> is the call without \<^verbatim>\<open>tags\<close>.
\<close>

definition removeTorrentTags_body :: "hashes \<Rightarrow> string list option \<Rightarrow> URLSearchParams" where
  "removeTorrentTags_body hs tags =
     (let body0 = [(''hashes'', hashes_field hs)]
      in case tags of
           None \<Rightarrow> body0
         | Some ts \<Rightarrow> entries_set ''tags'' (join '','' ts) body0)"

definition removeTorrentTags ::
  "('j, 'n, 'q) runtime \<Rightarrow> hashes \<Rightarrow> string list option \<Rightarrow> state \<Rightarrow> unit promise \<times> state" where
  "removeTorrentTags env hs tags st =
     await_void (callMethod env torrents ''removeTags'' (post (removeTorrentTags_body hs tags)) st)"

definition setAutomaticTorrentManagement_body :: "hashes \<Rightarrow> bool option \<Rightarrow> URLSearchParams" where
  "setAutomaticTorrentManagement_body hs enable =
     [(''hashes'', hashes_field hs), (''enable'', Boolean_toString (default_false enable))]"

definition setAutomaticTorrentManagement ::
  "('j, 'n, 'q) runtime \<Rightarrow> hashes \<Rightarrow> bool option \<Rightarrow> state \<Rightarrow> unit promise \<times> state" where
  "setAutomaticTorrentManagement env hs enable st =
     await_void (callMethod env torrents ''setAutoManagement''
                   (post (setAutomaticTorrentManagement_body hs enable)) st)"

definition toggleSequentialDownload_body :: "hashes \<Rightarrow> URLSearchParams" where
  "toggleSequentialDownload_body hs = [(''hashes'', hashes_field hs)]"

definition toggleSequentialDownload ::
  "('j, 'n, 'q) runtime \<Rightarrow> hashes \<Rightarrow> state \<Rightarrow> unit promise \<times> state" where
  "toggleSequentialDownload env hs st =
     await_void (callMethod env torrents ''toggleSequentialDownload''
                   (post (toggleSequentialDownload_body hs)) st)"

definition setFirstLastPiecePriority_body :: "hashes \<Rightarrow> URLSearchParams" where
  "setFirstLastPiecePriority_body hs = [(''hashes'', hashes_field hs)]"

definition setFirstLastPiecePriority ::
  "('j, 'n, 'q) runtime \<Rightarrow> hashes \<Rightarrow> state \<Rightarrow> unit promise \<times> state" where
  "setFirstLastPiecePriority env hs st =
     await_void (callMethod env torrents ''toggleFirstLastPiecePrio''
                   (post (setFirstLastPiecePriority_body hs)) st)"

definition setForceStart_body :: "hashes \<Rightarrow> bool option \<Rightarrow> URLSearchParams" where
  "setForceStart_body hs v =
     [(''hashes'', hashes_field hs), (''value'', Boolean_toString (default_false v))]"

definition setForceStart ::
  "('j, 'n, 'q) runtime \<Rightarrow> hashes \<Rightarrow> bool option \<Rightarrow> state \<Rightarrow> unit promise \<times> state" where
  "setForceStart env hs v st =
     await_void (callMethod env torrents ''setForceStart'' (post (setForceStart_body hs v)) st)"

definition setSuperSeeding_body :: "hashes \<Rightarrow> bool option \<Rightarrow> URLSearchParams" where
  "setSuperSeeding_body hs v =
     [(''hashes'', hashes_field hs), (''value'', Boolean_toString (default_false v))]"

definition setSuperSeeding ::
  "('j, 'n, 'q) runtime \<Rightarrow> hashes \<Rightarrow> bool option \<Rightarrow> state \<Rightarrow> unit promise \<times> state" where
  "setSuperSeeding env hs v st =
     await_void (callMethod env torrents ''setSuperSeeding'' (post (setSuperSeeding_body hs v)) st)"

definition renameFile_body :: "hashes \<Rightarrow> string \<Rightarrow> string \<Rightarrow> URLSearchParams" where
  "renameFile_body h oldPath newPath =
     [(''hash'', hashes_field h), (''oldPath'', oldPath), (''newPath'', newPath)]"

definition renameFile ::
  "('j, 'n, 'q) runtime \<Rightarrow> hashes \<Rightarrow> string \<Rightarrow> string \<Rightarrow> state \<Rightarrow> unit promise \<times> state" where
  "renameFile env h oldPath newPath st =
     await_void (callMethod env torrents ''renameFile'' (post (renameFile_body h oldPath newPath)) st)"

definition renameFolder_body :: "hashes \<Rightarrow> string \<Rightarrow> string \<Rightarrow> URLSearchParams" where
  "renameFolder_body h oldPath newPath =
     [(''hash'', hashes_field h), (''oldPath'', oldPath), (''newPath'', newPath)]"

definition renameFolder ::
  "('j, 'n, 'q) runtime \<Rightarrow> hashes \<Rightarrow> string \<Rightarrow> string \<Rightarrow> state \<Rightarrow> unit promise \<times> state" where
  "renameFolder env h oldPath newPath st =
     await_void (callMethod env torrents ''renameFolder'' (post (renameFolder_body h oldPath newPath)) st)"

section \<open>Adding torrents\<close>

text \<open>
  An element of the argument of \<^verbatim>\<open>addNewTorrent\<close>: a string, a \<^verbatim>\<open>Blob\<close>, a
  \<^verbatim>\<open>Buffer\<close> or a \<^verbatim>\<open>Stream\<close>. A stream is the chunks of its \<^verbatim>\<open>data\<close> events and
  whether its \<^verbatim>\<open>end\<close> event ever comes.
\<close>

record Stream =
  chunks :: "string list"
  ends :: bool

datatype TorrentInput =
    TString string
  | TBlob Blob
  | TBuffer string
  | TStream Stream

text \<open>
  A property of an \<^verbatim>\<open>AddNewTorrentOptions\<close> object that is present, with its value; the
  object is the list of its properties in the order of \<^verbatim>\<open>Object.entries\<close>.
\<close>

datatype 'n AddNewTorrentOption =
    Opt_savepath string
  | Opt_cookie string
  | Opt_category string
  | Opt_tags string
  | Opt_skip_checking string
  | Opt_paused string
  | Opt_root_folder string
  | Opt_rename string
  | Opt_upLimit 'n
  | Opt_dlLimit 'n
  | Opt_ratioLimit 'n
  | Opt_seedingTimeLimit 'n
  | Opt_autoTMM bool
  | Opt_sequentialDownload string
  | Opt_firstLastPiecePrio string

text \<open>
  The key and the value of a property, the value as the string that
  \<^verbatim>\<open>FormData.append\<close> makes of it.
\<close>

fun option_entry ::
  "('j, 'n, 'q) runtime \<Rightarrow> 'n AddNewTorrentOption \<Rightarrow> string \<times> FormDataEntryValue" where
  "option_entry env (Opt_savepath v) = (''savepath'', Field v)"
| "option_entry env (Opt_cookie v) = (''cookie'', Field v)"
| "option_entry env (Opt_category v) = (''category'', Field v)"
| "option_entry env (Opt_tags v) = (''tags'', Field v)"
| "option_entry env (Opt_skip_checking v) = (''skip_checking'', Field v)"
| "option_entry env (Opt_paused v) = (''paused'', Field v)"
| "option_entry env (Opt_root_folder v) = (''root_folder'', Field v)"
| "option_entry env (Opt_rename v) = (''rename'', Field v)"
| "option_entry env (Opt_upLimit n) = (''upLimit'', Field (Number_toString env n))"
| "option_entry env (Opt_dlLimit n) = (''dlLimit'', Field (Number_toString env n))"
| "option_entry env (Opt_ratioLimit n) = (''ratioLimit'', Field (Number_toString env n))"
| "option_entry env (Opt_seedingTimeLimit n) = (''seedingTimeLimit'', Field (Number_toString env n))"
| "option_entry env (Opt_autoTMM b) = (''autoTMM'', Field (Boolean_toString b))"
| "option_entry env (Opt_sequentialDownload v) = (''sequentialDownload'', Field v)"
| "option_entry env (Opt_firstLastPiecePrio v) = (''firstLastPiecePrio'', Field v)"

text \<open>\<^verbatim>\<open>torrents.filter(v => typeof v === 'string')\<close>.\<close>

fun string_elements :: "TorrentInput list \<Rightarrow> string list" where
  "string_elements [] = []"
| "string_elements (TString s # ts) = s # string_elements ts"
| "string_elements (t # ts) = string_elements ts"

definition is_link :: "string \<Rightarrow> bool" where
  "is_link v =
     (startsWith v ''http://'' \<or> startsWith v ''https://'' \<or> startsWith v ''magnet:''
      \<or> startsWith v ''bc://bt/'')"

definition bittorrent :: string where
  "bittorrent = ''application/x-bittorrent''"

text \<open>
  The loop \<^verbatim>\<open>for (const torrent of torrents)\<close>, with the form as it stands. A failing
  \<^verbatim>\<open>readFileSync\<close> rejects the call; a stream that never ends leaves it pending.
\<close>

fun addNewTorrent_loop ::
  "('j, 'n, 'q) runtime \<Rightarrow> string list \<Rightarrow> TorrentInput list \<Rightarrow> FormData \<Rightarrow> FormData promise" where
  "addNewTorrent_loop env urls [] form = Resolved form"
| "addNewTorrent_loop env urls (TString s # ts) form =
     (if s \<notin> set urls
      then (case readFileSync env s of
              Inl e \<Rightarrow> Rejected e
            | Inr file \<Rightarrow>
                addNewTorrent_loop env urls ts
                  (form @ [(''torrents'', File \<lparr>blob_bytes = file, blob_type = bittorrent\<rparr>)]))
      else addNewTorrent_loop env urls ts form)"
| "addNewTorrent_loop env urls (TBlob b # ts) form =
     addNewTorrent_loop env urls ts (form @ [(''torrents'', File b)])"
| "addNewTorrent_loop env urls (TBuffer buf # ts) form =
     addNewTorrent_loop env urls ts
       (form @ [(''torrents'', File \<lparr>blob_bytes = buf, blob_type = bittorrent\<rparr>)])"
| "addNewTorrent_loop env urls (TStream st # ts) form =
     (if ends st
      then addNewTorrent_loop env urls ts
             (form @ [(''torrents'', File \<lparr>blob_bytes = concat (chunks st), blob_type = bittorrent\<rparr>)])
      else Pending)"

text \<open>The form that \<^verbatim>\<open>addNewTorrent\<close> builds before it calls \<^verbatim>\<open>callMethod\<close>.\<close>

definition addNewTorrent_body ::
  "('j, 'n, 'q) runtime \<Rightarrow> TorrentInput list \<Rightarrow> 'n AddNewTorrentOption list option
     \<Rightarrow> FormData promise" where
  "addNewTorrent_body env ts options =
     (let body0 = map (option_entry env) (case options of None \<Rightarrow> [] | Some os \<Rightarrow> os);
          urls = filter is_link (string_elements ts);
          body1 = entries_set ''urls'' (Field (join [CHR 0x0A] urls)) body0
      in addNewTorrent_loop env urls ts body1)"

definition addNewTorrent ::
  "('j, 'n, 'q) runtime \<Rightarrow> TorrentInput list \<Rightarrow> 'n AddNewTorrentOption list option \<Rightarrow> state
     \<Rightarrow> unit promise \<times> state" where
  "addNewTorrent env ts options st =
     (case addNewTorrent_body env ts options of
        Resolved form \<Rightarrow>
          await_void (callMethod env torrents ''add''
                        (Some \<lparr>method = Some POST, query = None, body = Some (FormDataBody form),
                               headers = None\<rparr>) st)
      | Rejected e \<Rightarrow> (Rejected e, st)
      | Pending \<Rightarrow> (Pending, st))"

text \<open>An element that goes into the field \<^verbatim>\<open>urls\<close>: a string that is a link.\<close>

definition link_element :: "TorrentInput \<Rightarrow> bool" where
  "link_element t = (case t of TString s \<Rightarrow> is_link s | _ \<Rightarrow> False)"

text \<open>
  What the specification says of each element that is not a link: the binary part it
  becomes. A path is read from disk, a buffer and a blob are attached, a stream is drained.
\<close>

definition binary_part :: "('j, 'n, 'q) runtime \<Rightarrow> TorrentInput \<Rightarrow> Blob option" where
  "binary_part env t =
     (case t of
        TString s \<Rightarrow>
          if is_link s then None
          else (case readFileSync env s of
                  Inl e \<Rightarrow> None
                | Inr file \<Rightarrow> Some \<lparr>blob_bytes = file, blob_type = bittorrent\<rparr>)
      | TBlob b \<Rightarrow> Some b
      | TBuffer buf \<Rightarrow> Some \<lparr>blob_bytes = buf, blob_type = bittorrent\<rparr>
      | TStream st \<Rightarrow> Some \<lparr>blob_bytes = concat (chunks st), blob_type = bittorrent\<rparr>)"

text \<open>
  An element that \<^verbatim>\<open>addNewTorrent\<close> gets past: a path that can be read, a stream that
  ends.
\<close>

definition readable :: "('j, 'n, 'q) runtime \<Rightarrow> TorrentInput \<Rightarrow> bool" where
  "readable env t =
     (case t of
        TString s \<Rightarrow> is_link s \<or> (case readFileSync env s of Inl e \<Rightarrow> False | Inr file \<Rightarrow> True)
      | TStream st \<Rightarrow> ends st
      | _ \<Rightarrow> True)"

section \<open>The runtime's JSON parser\<close>

text \<open>
  \<^verbatim>\<open>JSON.parse\<close> belongs to the runtime; the client takes it as a parameter. This is
  the JSON grammar on strings of code units below 256, for the examples: a number keeps
  its text, a string is the list of the code units it denotes. The recursion on nested
  values is bounded by fuel that \<open>json_parse\<close> sets beyond the length of the text.
\<close>

datatype json =
    JNull
  | JBool bool
  | JNumber string
  | JString "nat list"
  | JArray "json list"
  | JObject "(nat list \<times> json) list"

definition json_ws :: "char \<Rightarrow> bool" where
  "json_ws c = (of_char c \<in> {9, 10, 13, 32 :: nat})"

definition skip_ws :: "string \<Rightarrow> string" where
  "skip_ws s = dropWhile json_ws s"

definition hex_digit :: "char \<Rightarrow> nat option" where
  "hex_digit c =
     (let n = (of_char c :: nat)
      in if 48 \<le> n \<and> n \<le> 57 then Some (n - 48)
         else if 65 \<le> n \<and> n \<le> 70 then Some (n - 55)
         else if 97 \<le> n \<and> n \<le> 102 then Some (n - 87)
         else None)"

definition hex4 :: "char \<Rightarrow> char \<Rightarrow> char \<Rightarrow> char \<Rightarrow> nat option" where
  "hex4 a b c d =
     (case (hex_digit a, hex_digit b, hex_digit c, hex_digit d) of
        (Some w, Some x, Some y, Some z) \<Rightarrow> Some (((w * 16 + x) * 16 + y) * 16 + z)
      | _ \<Rightarrow> None)"

definition unescape :: "char \<Rightarrow> nat option" where
  "unescape e =
     (if e = CHR 0x22 then Some 34
      else if e = CHR 0x5C then Some 92
      else if e = CHR ''/'' then Some 47
      else if e = CHR ''b'' then Some 8
      else if e = CHR ''f'' then Some 12
      else if e = CHR ''n'' then Some 10
      else if e = CHR ''r'' then Some 13
      else if e = CHR ''t'' then Some 9
      else None)"

fun parse_string :: "string \<Rightarrow> (nat list \<times> string) option" where
  "parse_string [] = None"
| "parse_string (c # cs) =
     (if c = CHR 0x22 then Some ([], cs)
      else if c = CHR 0x5C then
        (case cs of
           [] \<Rightarrow> None
         | e # r \<Rightarrow>
             if e = CHR ''u'' then
               (case r of
                  a # b # c' # d # r' \<Rightarrow>
                    (case hex4 a b c' d of
                       None \<Rightarrow> None
                     | Some n \<Rightarrow>
                         (case parse_string r' of
                            None \<Rightarrow> None
                          | Some (v, rest) \<Rightarrow> Some (n # v, rest)))
                | _ \<Rightarrow> None)
             else
               (case unescape e of
                  None \<Rightarrow> None
                | Some n \<Rightarrow>
                    (case parse_string r of
                       None \<Rightarrow> None
                     | Some (v, rest) \<Rightarrow> Some (n # v, rest))))
      else if (of_char c :: nat) < 32 then None
      else (case parse_string cs of
              None \<Rightarrow> None
            | Some (v, rest) \<Rightarrow> Some (of_char c # v, rest)))"

definition parse_fraction :: "string \<Rightarrow> (string \<times> string) option" where
  "parse_fraction s =
     (if startsWith s ''.''
      then (let ds = takeWhile ascii_digit (tl s)
            in if ds = [] then None else Some (''.'' @ ds, dropWhile ascii_digit (tl s)))
      else Some ([], s))"

definition parse_exponent :: "string \<Rightarrow> (string \<times> string) option" where
  "parse_exponent s =
     (if startsWith s ''e'' \<or> startsWith s ''E''
      then (let r = tl s;
                sg = (if startsWith r ''+'' \<or> startsWith r ''-'' then take 1 r else []);
                r1 = drop (length sg) r;
                ds = takeWhile ascii_digit r1
            in if ds = [] then None else Some (take 1 s @ sg @ ds, dropWhile ascii_digit r1))
      else Some ([], s))"

definition parse_number :: "string \<Rightarrow> (string \<times> string) option" where
  "parse_number s =
     (let sg = (if startsWith s ''-'' then ''-'' else []);
          s1 = drop (length sg) s;
          ds = takeWhile ascii_digit s1
      in if ds = [] \<or> (hd ds = CHR ''0'' \<and> 1 < length ds) then None
         else (case parse_fraction (dropWhile ascii_digit s1) of
                 None \<Rightarrow> None
               | Some (f, s2) \<Rightarrow>
                   (case parse_exponent s2 of
                      None \<Rightarrow> None
                    | Some (e, s3) \<Rightarrow> Some (sg @ ds @ f @ e, s3))))"

fun parse_value :: "nat \<Rightarrow> string \<Rightarrow> (json \<times> string) option"
  and parse_elements :: "nat \<Rightarrow> string \<Rightarrow> (json list \<times> string) option"
  and parse_members :: "nat \<Rightarrow> string \<Rightarrow> ((nat list \<times> json) list \<times> string) option" where
  "parse_value 0 s = None"
| "parse_value (Suc n) s =
     (if startsWith s ''null'' then Some (JNull, drop 4 s)
      else if startsWith s ''true'' then Some (JBool True, drop 4 s)
      else if startsWith s ''false'' then Some (JBool False, drop 5 s)
      else if startsWith s [CHR 0x22] then
        (case parse_string (tl s) of
           None \<Rightarrow> None
         | Some (v, r) \<Rightarrow> Some (JString v, r))
      else if startsWith s ''['' then
        (let r = skip_ws (tl s)
         in if startsWith r '']'' then Some (JArray [], tl r)
            else (case parse_elements n r of
                    None \<Rightarrow> None
                  | Some (vs, r') \<Rightarrow> Some (JArray vs, r')))
      else if startsWith s ''{'' then
        (let r = skip_ws (tl s)
         in if startsWith r ''}'' then Some (JObject [], tl r)
            else (case parse_members n r of
                    None \<Rightarrow> None
                  | Some (kvs, r') \<Rightarrow> Some (JObject kvs, r')))
      else (case parse_number s of
              None \<Rightarrow> None
            | Some (lexeme, r) \<Rightarrow> Some (JNumber lexeme, r)))"
| "parse_elements 0 s = None"
| "parse_elements (Suc n) s =
     (case parse_value n s of
        None \<Rightarrow> None
      | Some (v, r) \<Rightarrow>
          (let r1 = skip_ws r
           in if startsWith r1 '','' then
                (case parse_elements n (skip_ws (tl r1)) of
                   None \<Rightarrow> None
                 | Some (vs, r2) \<Rightarrow> Some (v # vs, r2))
              else if startsWith r1 '']'' then Some ([v], tl r1)
              else None))"
| "parse_members 0 s = None"
| "parse_members (Suc n) s =
     (if \<not> startsWith s [CHR 0x22] then None
      else (case parse_string (tl s) of
              None \<Rightarrow> None
            | Some (k, r) \<Rightarrow>
                (let r1 = skip_ws r
                 in if \<not> startsWith r1 '':'' then None
                    else (case parse_value n (skip_ws (tl r1)) of
                            None \<Rightarrow> None
                          | Some (v, r2) \<Rightarrow>
                              (let r3 = skip_ws r2
                               in if startsWith r3 '','' then
                                    (case parse_members n (skip_ws (tl r3)) of
                                       None \<Rightarrow> None
                                     | Some (kvs, r4) \<Rightarrow> Some ((k, v) # kvs, r4))
                                  else if startsWith r3 ''}'' then Some ([(k, v)], tl r3)
                                  else None)))))"

definition json_parse :: "string \<Rightarrow> json option" where
  "json_parse s =
     (case parse_value (2 * length s + 2) (skip_ws s) of
        None \<Rightarrow> None
      | Some (v, r) \<Rightarrow> if skip_ws r = [] then Some v else None)"

section \<open>Example runtimes\<close>

text \<open>Decimal digits of a natural number and of an integer.\<close>

fun nat_toString :: "nat \<Rightarrow> string" where
  "nat_toString n =
     (if n < 10 then [''0123456789'' ! n]
      else nat_toString (n div 10) @ [''0123456789'' ! (n mod 10)])"

declare nat_toString.simps [simp del]

definition int_toString :: "int \<Rightarrow> string" where
  "int_toString i = (if i < 0 then ''-'' @ nat_toString (nat (- i)) else nat_toString (nat i))"

text \<open>
  A runtime whose server answers every request with the same response, whose numbers are
  integers, and whose disk holds one file.
\<close>

definition example_runtime :: "Response \<Rightarrow> (json, int, unit) runtime" where
  "example_runtime response =
     \<lparr>server = (\<lambda>sent request. Resolved response),
      JSON_parse = json_parse,
      Number_toString = int_toString,
      qs_stringify = (\<lambda>q. []),
      readFileSync = (\<lambda>path. if path = ''/tmp/a.torrent'' then Inr ''d8:announce0:e''
                              else Inl (SystemError ''ENOENT''))\<rparr>"

text \<open>The client that \<^verbatim>\<open>new QBittorrent('http://localhost:8080/')\<close> makes.\<close>

definition example_client :: QBittorrent where
  "example_client = \<lparr>url = ''http://localhost:8080/api/v2/'', authCookie = None\<rparr>"

definition version_response :: Response where
  "version_response = \<lparr>status = 200, text_of = ''4.6.5'', response_headers = []\<rparr>"

definition login_response :: Response where
  "login_response =
     \<lparr>status = 200, text_of = ''Ok.'',
      response_headers = [(''set-cookie'', ''SID=abc123; Path=/'')]\<rparr>"

definition fails_response :: Response where
  "fails_response = \<lparr>status = 200, text_of = ''Fails.'', response_headers = []\<rparr>"

definition forbidden_response :: Response where
  "forbidden_response = \<lparr>status = 403, text_of = ''Forbidden'', response_headers = []\<rparr>"

definition empty_error_response :: Response where
  "empty_error_response = \<lparr>status = 500, text_of = [], response_headers = []\<rparr>"

section \<open>Evaluation of the examples\<close>

lemmas url_eval = URL_new_def URL_parse_def startsWith_def parse_special_def plain_host_def
  plain_path_char_def ascii_lower_alpha_def ascii_upper_alpha_def ascii_digit_def parse_port_def
  decimal_value_def default_port_def URL_href_def URL_origin_def shorten_path_def
  URL_set_search_def Let_def

lemmas headers_eval = Headers_append_def normalize_value_def header_value_def HTTP_whitespace_def
  Headers_values_def ascii_lowercase_def getSetCookie_def trim_def WhiteSpace_def

lemmas json_eval = skip_ws_def json_ws_def parse_number_def parse_fraction_def parse_exponent_def
  startsWith_def ascii_digit_def Let_def

lemma parse_value_version: "0 < n \<Longrightarrow> parse_value n ''4.6.5'' = Some (JNumber ''4.6'', ''.5'')"
  by (cases n) (simp_all add: json_eval)

lemma json_parse_version: "json_parse ''4.6.5'' = None"
  by (simp add: json_parse_def parse_value_version skip_ws_def json_ws_def)

lemma example_version_request:
  "callMethod_request env example_client app ''version'' None
     = Inr \<lparr>request_url = ''http://localhost:8080/api/v2/app/version'', request_method = GET,
            request_headers = [(''Referer'', ''http://localhost:8080'')], request_body = None\<rparr>"
  by (simp add: callMethod_request_def example_client_def url_eval headers_eval)

section \<open>The dispatcher\<close>

lemma callMethod_resolved:
  assumes "callMethod_request env this apiName methodName options = Inr request"
    and "server env sent request = Resolved response"
  shows "callMethod env apiName methodName options (this, sent)
           = (callMethod_response env response, (this, sent @ [request]))"
  using assms by (simp add: callMethod_def)

lemma callMethod_sent:
  "callMethod_request env this apiName methodName options = Inr request \<Longrightarrow>
   snd (callMethod env apiName methodName options (this, sent)) = (this, sent @ [request])"
  by (simp add: callMethod_def split: promise.splits)

lemma callMethod_client: "fst (snd (callMethod env apiName methodName options (this, sent))) = this"
  by (simp add: callMethod_def split: sum.splits promise.splits)

lemma callMethod_request_None:
  assumes "callMethod_request env this apiName methodName None = Inr request"
  shows "request_method request = GET \<and> request_body request = None
         \<and> map_option URL_href (URL_new (APINames_value apiName @ ''/'' @ methodName) (Some (url this)))
             = Some (request_url request)"
  using assms
  by (auto simp add: callMethod_request_def Let_def split: option.splits sum.splits if_splits)

text \<open>
  C1. When the server answers a request of \<^verbatim>\<open>callMethod\<close> with a status outside 200 to
  299, the call is rejected with a \<^verbatim>\<open>RequestError\<close> whose \<^verbatim>\<open>code\<close> is the status and
  whose \<^verbatim>\<open>message\<close> is the text of the response, whatever the status and the text are;
  the call is not fulfilled with any value.
\<close>

theorem callMethod_non2xx_throws:
  assumes "callMethod_request env this apiName methodName options = Inr request"
    and "server env sent request = Resolved response"
    and "status response < 200 \<or> 299 < status response"
  shows "fst (callMethod env apiName methodName options (this, sent))
           = Rejected (RequestError (status response) (text_of response))
         \<and> code (RequestError (status response) (text_of response)) = status response
         \<and> message (RequestError (status response) (text_of response)) = text_of response
         \<and> (\<forall>v. fst (callMethod env apiName methodName options (this, sent)) \<noteq> Resolved v)"
  using assms by (auto simp add: callMethod_resolved callMethod_response_def ok_def)

theorem callMethod_non2xx_throws_witness:
  "callMethod_request (example_runtime empty_error_response) example_client app ''version'' None
     = Inr \<lparr>request_url = ''http://localhost:8080/api/v2/app/version'', request_method = GET,
            request_headers = [(''Referer'', ''http://localhost:8080'')], request_body = None\<rparr>
   \<and> server (example_runtime empty_error_response) []
        \<lparr>request_url = ''http://localhost:8080/api/v2/app/version'', request_method = GET,
         request_headers = [(''Referer'', ''http://localhost:8080'')], request_body = None\<rparr>
       = Resolved empty_error_response
   \<and> 299 < status empty_error_response
   \<and> fst (callMethod (example_runtime empty_error_response) app ''version'' None (example_client, []))
       = Rejected (RequestError 500 [])"
  using callMethod_non2xx_throws [of "example_runtime empty_error_response" example_client app
      "''version''" None _ "[]" empty_error_response, OF example_version_request]
  by (simp add: example_version_request example_runtime_def empty_error_response_def)

text \<open>
  C4. When the server answers a request of \<^verbatim>\<open>callMethod\<close> with a status from 200 to
  299, the call is fulfilled: its body is the value the JSON parser gives for the text of the
  response, and the text itself, unchanged, when the parser rejects it.
\<close>

theorem callMethod_2xx_json_or_text:
  assumes "callMethod_request env this apiName methodName options = Inr request"
    and "server env sent request = Resolved response"
    and "200 \<le> status response" and "status response \<le> 299"
  shows "fst (callMethod env apiName methodName options (this, sent))
           = Resolved \<lparr>cmr_body = (case JSON_parse env (text_of response) of
                                      Some v \<Rightarrow> Json v
                                    | None \<Rightarrow> Text (text_of response)),
                       cmr_headers = response_headers response\<rparr>"
  using assms by (simp add: callMethod_resolved callMethod_response_def ok_def split: option.splits)

theorem callMethod_2xx_json_or_text_witness:
  "callMethod_request (example_runtime version_response) example_client app ''version'' None
     = Inr \<lparr>request_url = ''http://localhost:8080/api/v2/app/version'', request_method = GET,
            request_headers = [(''Referer'', ''http://localhost:8080'')], request_body = None\<rparr>
   \<and> server (example_runtime version_response) []
        \<lparr>request_url = ''http://localhost:8080/api/v2/app/version'', request_method = GET,
         request_headers = [(''Referer'', ''http://localhost:8080'')], request_body = None\<rparr>
       = Resolved version_response
   \<and> 200 \<le> status version_response \<and> status version_response \<le> 299
   \<and> JSON_parse (example_runtime version_response) ''4.6.5'' = None
   \<and> fst (callMethod (example_runtime version_response) app ''version'' None (example_client, []))
       = Resolved \<lparr>cmr_body = Text ''4.6.5'', cmr_headers = []\<rparr>"
  using callMethod_2xx_json_or_text [of "example_runtime version_response" example_client app
      "''version''" None _ "[]" version_response, OF example_version_request]
  by (simp add: example_version_request example_runtime_def version_response_def json_parse_version)

section \<open>The session\<close>

lemma example_logout_request:
  "callMethod_request env (example_client\<lparr>authCookie := Some ''SID=abc123; Path=/''\<rparr>) auth ''logout'' None
     = Inr \<lparr>request_url = ''http://localhost:8080/api/v2/auth/logout'', request_method = GET,
            request_headers = [(''Referer'', ''http://localhost:8080''), (''Cookie'', ''SID=abc123; Path=/'')],
            request_body = None\<rparr>"
  by (simp add: callMethod_request_def example_client_def url_eval headers_eval)

text \<open>
  C9. \<^verbatim>\<open>logout\<close> leaves the client as it was, whatever the answer of the server: the
  credential after the call is the credential before it. The one request it sends is the
  request of \<^verbatim>\<open>callMethod\<close> for the action \<^verbatim>\<open>logout\<close> of \<^verbatim>\<open>auth\<close>: a GET
  without body to \<^verbatim>\<open>auth/logout\<close> under the URL of the client.
\<close>

theorem logout_keeps_credential:
  "authCookie (fst (snd (logout env (this, sent)))) = authCookie this
   \<and> (callMethod_request env this auth ''logout'' None = Inr request
        \<longrightarrow> snd (logout env (this, sent)) = (this, sent @ [request])
            \<and> request_method request = GET \<and> request_body request = None
            \<and> map_option URL_href (URL_new ''auth/logout'' (Some (url this)))
                = Some (request_url request))"
  using callMethod_request_None [of env this auth "''logout''" request]
  by (simp add: logout_def await_void_def callMethod_client callMethod_sent)

theorem logout_keeps_credential_witness:
  "callMethod_request (example_runtime login_response)
       (example_client\<lparr>authCookie := Some ''SID=abc123; Path=/''\<rparr>) auth ''logout'' None
     = Inr \<lparr>request_url = ''http://localhost:8080/api/v2/auth/logout'', request_method = GET,
            request_headers = [(''Referer'', ''http://localhost:8080''), (''Cookie'', ''SID=abc123; Path=/'')],
            request_body = None\<rparr>
   \<and> snd (logout (example_runtime login_response)
            (example_client\<lparr>authCookie := Some ''SID=abc123; Path=/''\<rparr>, []))
       = (example_client\<lparr>authCookie := Some ''SID=abc123; Path=/''\<rparr>,
          [\<lparr>request_url = ''http://localhost:8080/api/v2/auth/logout'', request_method = GET,
            request_headers = [(''Referer'', ''http://localhost:8080''), (''Cookie'', ''SID=abc123; Path=/'')],
            request_body = None\<rparr>])
   \<and> authCookie (fst (snd (logout (example_runtime login_response)
            (example_client\<lparr>authCookie := Some ''SID=abc123; Path=/''\<rparr>, []))))
       = Some ''SID=abc123; Path=/''"
  using logout_keeps_credential [of "example_runtime login_response"
      "example_client\<lparr>authCookie := Some ''SID=abc123; Path=/''\<rparr>" "[]"]
  by (simp add: example_logout_request)

lemma example_login_request:
  "callMethod_request env (example_client\<lparr>authCookie := Some ''SID=old''\<rparr>) auth ''login'' (post b)
     = Inr \<lparr>request_url = ''http://localhost:8080/api/v2/auth/login'', request_method = POST,
            request_headers = [(''Referer'', ''http://localhost:8080''), (''Cookie'', ''SID=old'')],
            request_body = Some (URLSearchParamsBody b)\<rparr>"
  by (simp add: callMethod_request_def example_client_def post_def url_eval headers_eval)

lemma example_first_login_request:
  "callMethod_request env example_client auth ''login'' (post b)
     = Inr \<lparr>request_url = ''http://localhost:8080/api/v2/auth/login'', request_method = POST,
            request_headers = [(''Referer'', ''http://localhost:8080'')],
            request_body = Some (URLSearchParamsBody b)\<rparr>"
  by (simp add: callMethod_request_def example_client_def post_def url_eval headers_eval)

lemma login_resolved:
  assumes "callMethod_request env this auth ''login''
             (post [(''username'', username), (''password'', password)]) = Inr request"
    and "server env sent request = Resolved response"
  shows "login env username password (this, sent) =
           (if ok response
            then (Resolved (),
                  (this\<lparr>authCookie := find (\<lambda>cookie. startsWith cookie ''SID='')
                                          (getSetCookie (response_headers response))\<rparr>,
                   sent @ [request]))
            else (Rejected (RequestError (status response) (text_of response)),
                  (this, sent @ [request])))"
  using assms
  by (simp add: login_def callMethod_resolved callMethod_response_def Let_def split: option.splits)

text \<open>
  C8, as stated, fails on a response outside 200 to 299: \<^verbatim>\<open>callMethod\<close> throws, so
  \<^verbatim>\<open>login\<close> raises the \<^verbatim>\<open>RequestError\<close> and the credential stays what it was.
\<close>

theorem login_no_cookie_counterexample:
  "getSetCookie (response_headers forbidden_response) = []
   \<and> fst (login (example_runtime forbidden_response) ''admin'' ''adminadmin''
            (example_client\<lparr>authCookie := Some ''SID=old''\<rparr>, []))
       = Rejected (RequestError 403 ''Forbidden'')
   \<and> authCookie (fst (snd (login (example_runtime forbidden_response) ''admin'' ''adminadmin''
            (example_client\<lparr>authCookie := Some ''SID=old''\<rparr>, []))))
       = Some ''SID=old''"
  by (simp add: login_resolved [OF example_login_request] example_runtime_def
      forbidden_response_def ok_def getSetCookie_def Headers_values_def)

text \<open>
  C8, amended. When the server answers the login request with a status from 200 to 299 and
  none of the cookies of the response starts with \<^verbatim>\<open>SID=\<close>, \<^verbatim>\<open>login\<close> completes
  without an error and the credential is unset afterwards.
\<close>

theorem login_no_cookie_2xx:
  assumes "callMethod_request env this auth ''login''
             (post [(''username'', username), (''password'', password)]) = Inr request"
    and "server env sent request = Resolved response"
    and "200 \<le> status response" and "status response \<le> 299"
    and "\<forall>cookie \<in> set (getSetCookie (response_headers response)). \<not> startsWith cookie ''SID=''"
  shows "fst (login env username password (this, sent)) = Resolved ()
         \<and> authCookie (fst (snd (login env username password (this, sent)))) = None"
proof -
  have "find (\<lambda>cookie. startsWith cookie ''SID='') (getSetCookie (response_headers response)) = None"
    using assms(5) by (simp add: find_None_iff)
  then show ?thesis
    using assms(3,4) by (simp add: login_resolved [OF assms(1,2)] ok_def)
qed

theorem login_no_cookie_2xx_witness:
  "callMethod_request (example_runtime fails_response)
       (example_client\<lparr>authCookie := Some ''SID=old''\<rparr>) auth ''login''
       (post [(''username'', ''admin''), (''password'', ''wrong'')])
     = Inr \<lparr>request_url = ''http://localhost:8080/api/v2/auth/login'', request_method = POST,
            request_headers = [(''Referer'', ''http://localhost:8080''), (''Cookie'', ''SID=old'')],
            request_body = Some (URLSearchParamsBody [(''username'', ''admin''), (''password'', ''wrong'')])\<rparr>
   \<and> server (example_runtime fails_response) []
        \<lparr>request_url = ''http://localhost:8080/api/v2/auth/login'', request_method = POST,
         request_headers = [(''Referer'', ''http://localhost:8080''), (''Cookie'', ''SID=old'')],
         request_body = Some (URLSearchParamsBody [(''username'', ''admin''), (''password'', ''wrong'')])\<rparr>
       = Resolved fails_response
   \<and> 200 \<le> status fails_response \<and> status fails_response \<le> 299
   \<and> getSetCookie (response_headers fails_response) = []
   \<and> fst (login (example_runtime fails_response) ''admin'' ''wrong''
            (example_client\<lparr>authCookie := Some ''SID=old''\<rparr>, [])) = Resolved ()
   \<and> authCookie (fst (snd (login (example_runtime fails_response) ''admin'' ''wrong''
            (example_client\<lparr>authCookie := Some ''SID=old''\<rparr>, [])))) = None"
  using login_no_cookie_2xx [of "example_runtime fails_response"
      "example_client\<lparr>authCookie := Some ''SID=old''\<rparr>" "''admin''" "''wrong''" _ "[]"
      fails_response, OF example_login_request]
  by (simp add: example_login_request example_runtime_def fails_response_def getSetCookie_def
      Headers_values_def)

lemma trim_empty_iff: "trim s = [] \<longleftrightarrow> list_all WhiteSpace s"
proof
  assume "trim s = []"
  then have "dropWhile WhiteSpace (rev (dropWhile WhiteSpace s)) = []"
    by (simp add: trim_def)
  then have all: "\<forall>c \<in> set (dropWhile WhiteSpace s). WhiteSpace c"
    by simp
  have "dropWhile WhiteSpace s = []"
  proof (rule ccontr)
    assume "dropWhile WhiteSpace s \<noteq> []"
    then have "\<not> WhiteSpace (hd (dropWhile WhiteSpace s))" and "hd (dropWhile WhiteSpace s) \<in> set (dropWhile WhiteSpace s)"
      by (simp_all add: hd_dropWhile)
    with all show False by blast
  qed
  then have "\<forall>c \<in> set s. WhiteSpace c"
    using dropWhile_eq_Nil_conv [of WhiteSpace s] by blast
  then show "list_all WhiteSpace s"
    by (simp add: list_all_iff)
next
  assume "list_all WhiteSpace s"
  then have "\<forall>c \<in> set s. WhiteSpace c"
    by (simp add: list_all_iff)
  then have "dropWhile WhiteSpace s = []"
    using dropWhile_eq_Nil_conv [of WhiteSpace s] by blast
  then show "trim s = []"
    by (simp only: trim_def rev.simps dropWhile.simps)
qed

lemma startsWith_SID_trim: "startsWith cookie ''SID='' \<Longrightarrow> trim cookie \<noteq> []"
proof -
  assume "startsWith cookie ''SID=''"
  then obtain rest where "cookie = CHR ''S'' # rest"
    by (auto simp add: startsWith_def prefix_def)
  then have "\<not> list_all WhiteSpace cookie"
    by (simp add: WhiteSpace_def)
  then show ?thesis
    by (simp add: trim_empty_iff)
qed

lemma callMethod_request_Cookie:
  assumes "callMethod_request env this apiName methodName options = Inr request"
  shows "Headers_values ''Cookie'' (request_headers request)
           = (case authCookie this of
                None \<Rightarrow> []
              | Some cookie \<Rightarrow> if trim cookie \<noteq> [] then [normalize_value cookie] else [])"
  using assms
  by (auto simp add: callMethod_request_def Let_def Headers_append_def Headers_values_def
      ascii_lowercase_def ascii_upper_alpha_def
      split: option.splits sum.splits if_splits)


lemma normalize_value_idem: "normalize_value (normalize_value v) = normalize_value v"
proof -
  define u where "u = dropWhile HTTP_whitespace v"
  define w where "w = rev (dropWhile HTTP_whitespace (rev u))"
  have w: "normalize_value v = w"
    by (simp add: normalize_value_def u_def w_def)
  have "rev (w @ rev (takeWhile HTTP_whitespace (rev u))) = rev u"
    by (simp add: w_def)
  then have split: "w @ rev (takeWhile HTTP_whitespace (rev u)) = u"
    by (simp only: rev_is_rev_conv)
  have front: "dropWhile HTTP_whitespace w = w"
  proof (cases "w = []")
    case True
    then show ?thesis by simp
  next
    case False
    then have "u \<noteq> []" and "hd w = hd u"
      using split hd_append2 [of w "rev (takeWhile HTTP_whitespace (rev u))"] by auto
    then have "\<not> HTTP_whitespace (hd w)"
      using hd_dropWhile [of HTTP_whitespace v] by (simp add: u_def)
    then show ?thesis
      by (simp add: dropWhile_eq_self_iff)
  qed
  have rear: "dropWhile HTTP_whitespace (rev w) = rev w"
    by (simp add: w_def)
  show ?thesis
    unfolding w by (simp only: normalize_value_def front rear rev_rev_ident)
qed

lemma Headers_append_holds:
  "Headers_append name v hs = Inr hs' \<Longrightarrow> hs' = hs @ [(name, normalize_value v)] \<and> Headers_holds (normalize_value v)"
  by (auto simp add: Headers_append_def Headers_holds_def normalize_value_idem split: if_splits)

text \<open>
  C2. After a login that the server answers with a status from 200 to 299 and a
  \<^verbatim>\<open>set-cookie\<close> header starting with \<^verbatim>\<open>SID=\<close> (the first such header, when there
  are several), the credential is that header's value, all of it. A client that holds
  such a credential sends it as the one \<^verbatim>\<open>Cookie\<close> header of every request, with
  exactly that value, and \<^verbatim>\<open>callMethod\<close> leaves the credential in place. A client
  whose credential is unset, empty or made of white space only sends no \<^verbatim>\<open>Cookie\<close>
  header.
\<close>

theorem session_cookie_attached:
  "(callMethod_request env this auth ''login''
        (post [(''username'', username), (''password'', password)]) = Inr request
      \<and> server env sent request = Resolved response
      \<and> 200 \<le> status response \<and> status response \<le> 299
      \<and> find (\<lambda>c. startsWith c ''SID='') (getSetCookie (response_headers response)) = Some cookie
    \<longrightarrow> fst (login env username password (this, sent)) = Resolved ()
        \<and> authCookie (fst (snd (login env username password (this, sent)))) = Some cookie)
   \<and> (authCookie this' = Some cookie' \<and> startsWith cookie' ''SID='' \<and> Headers_holds cookie'
      \<and> callMethod_request env' this' apiName methodName options = Inr request'
    \<longrightarrow> Headers_values ''Cookie'' (request_headers request') = [cookie']
        \<and> authCookie (fst (snd (callMethod env' apiName methodName options (this', sent'))))
            = Some cookie')
   \<and> ((authCookie this'' = None \<or> (\<exists>blank. authCookie this'' = Some blank \<and> list_all WhiteSpace blank))
      \<and> callMethod_request env'' this'' apiName'' methodName'' options'' = Inr request''
    \<longrightarrow> Headers_values ''Cookie'' (request_headers request'') = [])"
proof (intro conjI impI)
  assume a: "callMethod_request env this auth ''login''
        (post [(''username'', username), (''password'', password)]) = Inr request
      \<and> server env sent request = Resolved response
      \<and> 200 \<le> status response \<and> status response \<le> 299
      \<and> find (\<lambda>c. startsWith c ''SID='') (getSetCookie (response_headers response)) = Some cookie"
  then have l: "login env username password (this, sent) =
       (Resolved (), (this\<lparr>authCookie := Some cookie\<rparr>, sent @ [request]))"
    using login_resolved [of env this username password request sent response]
    by (simp add: ok_def)
  show "fst (login env username password (this, sent)) = Resolved ()"
    by (simp add: l)
  show "authCookie (fst (snd (login env username password (this, sent)))) = Some cookie"
    by (simp add: l)
next
  assume b: "authCookie this' = Some cookie' \<and> startsWith cookie' ''SID='' \<and> Headers_holds cookie'
      \<and> callMethod_request env' this' apiName methodName options = Inr request'"
  then have "trim cookie' \<noteq> []" and "normalize_value cookie' = cookie'"
    by (simp_all add: startsWith_SID_trim Headers_holds_def)
  then show "Headers_values ''Cookie'' (request_headers request') = [cookie']"
    using b callMethod_request_Cookie [of env' this' apiName methodName options request'] by simp
  show "authCookie (fst (snd (callMethod env' apiName methodName options (this', sent')))) = Some cookie'"
    using b by (simp add: callMethod_client)
next
  assume c: "(authCookie this'' = None \<or> (\<exists>blank. authCookie this'' = Some blank \<and> list_all WhiteSpace blank))
      \<and> callMethod_request env'' this'' apiName'' methodName'' options'' = Inr request''"
  then show "Headers_values ''Cookie'' (request_headers request'') = []"
    using callMethod_request_Cookie [of env'' this'' apiName'' methodName'' options'' request'']
    by (auto simp add: trim_empty_iff)
qed


lemma example_cookie_request:
  "callMethod_request env (example_client\<lparr>authCookie := Some ''SID=abc123; Path=/''\<rparr>) app ''version'' None
     = Inr \<lparr>request_url = ''http://localhost:8080/api/v2/app/version'', request_method = GET,
            request_headers = [(''Referer'', ''http://localhost:8080''), (''Cookie'', ''SID=abc123; Path=/'')],
            request_body = None\<rparr>"
  by (simp add: callMethod_request_def example_client_def url_eval headers_eval)

lemma example_blank_request:
  "callMethod_request env (example_client\<lparr>authCookie := Some ''  ''\<rparr>) app ''version'' None
     = Inr \<lparr>request_url = ''http://localhost:8080/api/v2/app/version'', request_method = GET,
            request_headers = [(''Referer'', ''http://localhost:8080'')], request_body = None\<rparr>"
  by (simp add: callMethod_request_def example_client_def url_eval headers_eval)

lemma example_login_cookie:
  "find (\<lambda>c. startsWith c ''SID='') (getSetCookie (response_headers login_response))
     = Some ''SID=abc123; Path=/''"
  by (simp add: login_response_def getSetCookie_def Headers_values_def ascii_lowercase_def
      ascii_upper_alpha_def startsWith_def)

lemma example_cookie_holds: "Headers_holds ''SID=abc123; Path=/''"
  by (simp add: Headers_holds_def header_value_def normalize_value_def HTTP_whitespace_def)

lemma example_server: "server (example_runtime response) sent request = Resolved response"
  by (simp add: example_runtime_def)

theorem session_cookie_attached_witness:
  "fst (login (example_runtime login_response) ''admin'' ''adminadmin'' (example_client, []))
     = Resolved ()
   \<and> authCookie (fst (snd (login (example_runtime login_response) ''admin'' ''adminadmin''
          (example_client, [])))) = Some ''SID=abc123; Path=/''
   \<and> callMethod_request (example_runtime version_response)
         (example_client\<lparr>authCookie := Some ''SID=abc123; Path=/''\<rparr>) app ''version'' None
       = Inr \<lparr>request_url = ''http://localhost:8080/api/v2/app/version'', request_method = GET,
              request_headers = [(''Referer'', ''http://localhost:8080''),
                                 (''Cookie'', ''SID=abc123; Path=/'')],
              request_body = None\<rparr>
   \<and> Headers_values ''Cookie''
         [(''Referer'', ''http://localhost:8080''), (''Cookie'', ''SID=abc123; Path=/'')]
       = [''SID=abc123; Path=/'']
   \<and> authCookie (fst (snd (callMethod (example_runtime version_response) app ''version'' None
          (example_client\<lparr>authCookie := Some ''SID=abc123; Path=/''\<rparr>, []))))
       = Some ''SID=abc123; Path=/''
   \<and> list_all WhiteSpace ''  ''
   \<and> callMethod_request (example_runtime version_response)
         (example_client\<lparr>authCookie := Some ''  ''\<rparr>) app ''version'' None
       = Inr \<lparr>request_url = ''http://localhost:8080/api/v2/app/version'', request_method = GET,
              request_headers = [(''Referer'', ''http://localhost:8080'')], request_body = None\<rparr>
   \<and> Headers_values ''Cookie'' [(''Referer'', ''http://localhost:8080'')] = []"
proof -
  note t = session_cookie_attached [where env = "example_runtime login_response"
      and this = example_client and username = "''admin''" and password = "''adminadmin''"
      and sent = "[]" and response = login_response and cookie = "''SID=abc123; Path=/''"
      and request = "\<lparr>request_url = ''http://localhost:8080/api/v2/auth/login'',
            request_method = POST,
            request_headers = [(''Referer'', ''http://localhost:8080'')],
            request_body = Some (URLSearchParamsBody
               [(''username'', ''admin''), (''password'', ''adminadmin'')])\<rparr>"
      and this' = "example_client\<lparr>authCookie := Some ''SID=abc123; Path=/''\<rparr>"
      and cookie' = "''SID=abc123; Path=/''" and env' = "example_runtime version_response"
      and apiName = app and methodName = "''version''" and options = None and sent' = "[]"
      and request' = "\<lparr>request_url = ''http://localhost:8080/api/v2/app/version'',
            request_method = GET,
            request_headers = [(''Referer'', ''http://localhost:8080''),
                               (''Cookie'', ''SID=abc123; Path=/'')],
            request_body = None\<rparr>"
      and this'' = "example_client\<lparr>authCookie := Some ''  ''\<rparr>"
      and env'' = "example_runtime version_response"
      and apiName'' = app and methodName'' = "''version''" and options'' = None
      and request'' = "\<lparr>request_url = ''http://localhost:8080/api/v2/app/version'',
            request_method = GET,
            request_headers = [(''Referer'', ''http://localhost:8080'')],
            request_body = None\<rparr>"]
  have status: "status login_response = 200"
    by (simp add: login_response_def)
  have blank: "list_all WhiteSpace ''  ''"
    by (simp add: WhiteSpace_def)
  have sid: "startsWith ''SID=abc123; Path=/'' ''SID=''"
    by (simp add: startsWith_def)
  have x: "fst (login (example_runtime login_response) ''admin'' ''adminadmin'' (example_client, []))
             = Resolved ()
           \<and> authCookie (fst (snd (login (example_runtime login_response) ''admin'' ''adminadmin''
                (example_client, [])))) = Some ''SID=abc123; Path=/''"
    by (rule t [THEN conjunct1, THEN mp])
      (simp add: example_first_login_request example_server status example_login_cookie)
  have y: "Headers_values ''Cookie''
             [(''Referer'', ''http://localhost:8080''), (''Cookie'', ''SID=abc123; Path=/'')]
           = [''SID=abc123; Path=/'']
           \<and> authCookie (fst (snd (callMethod (example_runtime version_response) app ''version''
                None (example_client\<lparr>authCookie := Some ''SID=abc123; Path=/''\<rparr>, []))))
               = Some ''SID=abc123; Path=/''"
    using t [THEN conjunct2, THEN conjunct1, THEN mp]
    by (simp add: example_cookie_request example_cookie_holds sid)
  have z: "Headers_values ''Cookie'' [(''Referer'', ''http://localhost:8080'')] = []"
    using t [THEN conjunct2, THEN conjunct2, THEN mp]
    by (simp add: example_blank_request WhiteSpace_def)
  show ?thesis
    using x y z blank by (simp add: example_cookie_request example_blank_request)
qed

lemma replace_trailing_slash_append:
  "replace_trailing_slash (b @ ''/'') = b"
  by (simp add: replace_trailing_slash_def)

lemma replace_trailing_slash_none:
  "b = [] \<or> last b \<noteq> CHR ''/'' \<Longrightarrow> replace_trailing_slash b = b"
  by (auto simp add: replace_trailing_slash_def)

lemma example_constructor:
  "constructor (Some ''http://localhost:8080/'')
     = Inr \<lparr>url = ''http://localhost:8080/api/v2/'', authCookie = None\<rparr>"
  by (simp add: constructor_def replace_trailing_slash_def url_eval)

text \<open>
  C5. \<^verbatim>\<open>new QBittorrent('http://localhost:8080/')\<close> holds the URL
  \<^verbatim>\<open>http://localhost:8080/api/v2/\<close>, and \<^verbatim>\<open>getApplicationVersion\<close> on it sends one
  request: a GET to \<^verbatim>\<open>http://localhost:8080/api/v2/app/version\<close>, with no query string
  and no body. A slash at the end of the configured URL makes no difference to the client.
\<close>

theorem getApplicationVersion_request:
  "constructor (Some ''http://localhost:8080/'')
     = Inr \<lparr>url = ''http://localhost:8080/api/v2/'', authCookie = None\<rparr>
   \<and> snd (getApplicationVersion env
            (\<lparr>url = ''http://localhost:8080/api/v2/'', authCookie = None\<rparr>, sent))
       = (\<lparr>url = ''http://localhost:8080/api/v2/'', authCookie = None\<rparr>,
          sent @ [\<lparr>request_url = ''http://localhost:8080/api/v2/app/version'',
                    request_method = GET,
                    request_headers = [(''Referer'', ''http://localhost:8080'')],
                    request_body = None\<rparr>])
   \<and> (b = [] \<or> last b \<noteq> CHR ''/'' \<longrightarrow> constructor (Some (b @ ''/'')) = constructor (Some b))"
proof (intro conjI impI)
  show "constructor (Some ''http://localhost:8080/'')
     = Inr \<lparr>url = ''http://localhost:8080/api/v2/'', authCookie = None\<rparr>"
    by (rule example_constructor)
  show "snd (getApplicationVersion env
            (\<lparr>url = ''http://localhost:8080/api/v2/'', authCookie = None\<rparr>, sent))
       = (\<lparr>url = ''http://localhost:8080/api/v2/'', authCookie = None\<rparr>,
          sent @ [\<lparr>request_url = ''http://localhost:8080/api/v2/app/version'',
                    request_method = GET,
                    request_headers = [(''Referer'', ''http://localhost:8080'')],
                    request_body = None\<rparr>])"
    using callMethod_sent [OF example_version_request, of env sent]
    by (simp add: getApplicationVersion_def await_body_def example_client_def)
  assume "b = [] \<or> last b \<noteq> CHR ''/''"
  then show "constructor (Some (b @ ''/'')) = constructor (Some b)"
    by (simp add: constructor_def replace_trailing_slash_append replace_trailing_slash_none)
qed

theorem getApplicationVersion_request_witness:
  "last ''http://localhost:8080'' \<noteq> CHR ''/''
   \<and> constructor (Some ''http://localhost:8080'')
       = Inr \<lparr>url = ''http://localhost:8080/api/v2/'', authCookie = None\<rparr>
   \<and> getApplicationVersion (example_runtime version_response)
         (\<lparr>url = ''http://localhost:8080/api/v2/'', authCookie = None\<rparr>, [])
       = (Resolved (Text ''4.6.5''),
          \<lparr>url = ''http://localhost:8080/api/v2/'', authCookie = None\<rparr>,
          [\<lparr>request_url = ''http://localhost:8080/api/v2/app/version'',
            request_method = GET,
            request_headers = [(''Referer'', ''http://localhost:8080'')],
            request_body = None\<rparr>])"
proof -
  have r: "callMethod_request (example_runtime version_response)
             \<lparr>url = ''http://localhost:8080/api/v2/'', authCookie = None\<rparr> app ''version'' None
     = Inr \<lparr>request_url = ''http://localhost:8080/api/v2/app/version'', request_method = GET,
            request_headers = [(''Referer'', ''http://localhost:8080'')], request_body = None\<rparr>"
    using example_version_request [of "example_runtime version_response"]
    by (simp add: example_client_def)
  have "fst (getApplicationVersion (example_runtime version_response)
         (\<lparr>url = ''http://localhost:8080/api/v2/'', authCookie = None\<rparr>, []))
        = then_promise cmr_body
            (callMethod_response (example_runtime version_response) version_response)"
    by (simp add: getApplicationVersion_def await_body_def
        callMethod_resolved [OF r example_server])
  then have "fst (getApplicationVersion (example_runtime version_response)
         (\<lparr>url = ''http://localhost:8080/api/v2/'', authCookie = None\<rparr>, []))
        = Resolved (Text ''4.6.5'')"
    by (simp add: callMethod_response_def ok_def version_response_def example_runtime_def
        json_parse_version)
  moreover note t = getApplicationVersion_request [of "example_runtime version_response" "[]"
      "''http://localhost:8080''"]
  moreover have e1: "constructor (Some ''http://localhost:8080/'')
      = Inr \<lparr>url = ''http://localhost:8080/api/v2/'', authCookie = None\<rparr>"
    using t by simp
  moreover have e2: "constructor (Some ''http://localhost:8080/'')
      = constructor (Some ''http://localhost:8080'')"
    using t [THEN conjunct2, THEN conjunct2] by simp
  moreover have "constructor (Some ''http://localhost:8080'')
      = Inr \<lparr>url = ''http://localhost:8080/api/v2/'', authCookie = None\<rparr>"
    using e1 unfolding e2 .
  ultimately show ?thesis
    by (simp add: prod_eq_iff)
qed

section \<open>Forms of the torrent operations\<close>

lemma post_request_body:
  "callMethod_request env this apiName methodName (post b) = Inr request \<Longrightarrow>
   request_method request = POST \<and> request_body request = Some (URLSearchParamsBody b)"
  by (auto simp add: callMethod_request_def post_def Let_def
      split: option.splits sum.splits if_splits)

lemma example_post_request:
  "callMethod_request env example_client torrents ''removeTags'' (post b)
     = Inr \<lparr>request_url = ''http://localhost:8080/api/v2/torrents/removeTags'',
            request_method = POST,
            request_headers = [(''Referer'', ''http://localhost:8080'')],
            request_body = Some (URLSearchParamsBody b)\<rparr>"
  by (simp add: callMethod_request_def example_client_def post_def url_eval headers_eval)

text \<open>
  C3, as stated, fails on a list of two tags: \<^verbatim>\<open>removeTorrentTags\<close> joins the tags
  with a comma, as \<^verbatim>\<open>addTorrentTags\<close>, \<^verbatim>\<open>createTags\<close> and \<^verbatim>\<open>deleteTags\<close> do.
\<close>

theorem removeTorrentTags_pipe_counterexample:
  "entries_get ''tags'' (removeTorrentTags_body (Hashes [''h1'']) (Some [''movies'', ''2024'']))
     = Some ''movies,2024''
   \<and> entries_get ''tags'' (removeTorrentTags_body (Hashes [''h1'']) (Some [''movies'', ''2024'']))
     \<noteq> Some (join ''|'' [''movies'', ''2024''])"
  by (simp add: removeTorrentTags_body_def entries_get_def)

text \<open>
  C3, amended. For every list of tags passed to \<^verbatim>\<open>removeTorrentTags\<close>, the form has
  one field \<^verbatim>\<open>tags\<close>, and its value is the tags joined with a comma; this form is the
  body of the request sent.
\<close>

theorem removeTorrentTags_comma:
  "removeTorrentTags_body hs (Some tags) = [(''hashes'', hashes_field hs), (''tags'', join '','' tags)]
   \<and> entries_getAll ''tags'' (removeTorrentTags_body hs (Some tags)) = [join '','' tags]
   \<and> (callMethod_request env this torrents ''removeTags''
          (post (removeTorrentTags_body hs (Some tags))) = Inr request
        \<longrightarrow> snd (removeTorrentTags env hs (Some tags) (this, sent)) = (this, sent @ [request])
            \<and> request_body request
                = Some (URLSearchParamsBody
                          [(''hashes'', hashes_field hs), (''tags'', join '','' tags)]))"
proof (intro conjI impI)
  show b: "removeTorrentTags_body hs (Some tags)
             = [(''hashes'', hashes_field hs), (''tags'', join '','' tags)]"
    by (simp add: removeTorrentTags_body_def)
  show "entries_getAll ''tags'' (removeTorrentTags_body hs (Some tags)) = [join '','' tags]"
    by (simp add: b entries_getAll_def)
  assume r: "callMethod_request env this torrents ''removeTags''
          (post (removeTorrentTags_body hs (Some tags))) = Inr request"
  show "snd (removeTorrentTags env hs (Some tags) (this, sent)) = (this, sent @ [request])"
    by (simp add: removeTorrentTags_def await_void_def callMethod_sent [OF r])
  show "request_body request
                = Some (URLSearchParamsBody
                          [(''hashes'', hashes_field hs), (''tags'', join '','' tags)])"
    using post_request_body [OF r] by (simp add: b)
qed

theorem removeTorrentTags_comma_witness:
  "removeTorrentTags_body All (Some [''movies'', ''2024''])
     = [(''hashes'', ''all''), (''tags'', ''movies,2024'')]
   \<and> snd (removeTorrentTags (example_runtime version_response) All (Some [''movies'', ''2024''])
            (example_client, []))
       = (example_client,
          [\<lparr>request_url = ''http://localhost:8080/api/v2/torrents/removeTags'',
            request_method = POST,
            request_headers = [(''Referer'', ''http://localhost:8080'')],
            request_body = Some (URLSearchParamsBody
                                   [(''hashes'', ''all''), (''tags'', ''movies,2024'')])\<rparr>])"
  using removeTorrentTags_comma [of All "[''movies'', ''2024'']"
      "example_runtime version_response" example_client _ "[]",
      THEN conjunct2, THEN conjunct2, THEN mp, OF example_post_request]
    removeTorrentTags_comma [of All "[''movies'', ''2024'']", THEN conjunct1]
  by simp

lemma entries_getAll_simps:
  "entries_getAll name [] = []"
  "entries_getAll name ((k, v) # es) = (if k = name then v # entries_getAll name es else entries_getAll name es)"
  by (simp_all add: entries_getAll_def)

lemma entries_has_simps:
  "entries_has name [] = False"
  "entries_has name ((k, v) # es) = (k = name \<or> entries_has name es)"
  by (auto simp add: entries_has_def)

lemma setTorrentShareLimit_body_cases:
  "setTorrentShareLimit_body env hs options =
     (case seedingTimeLimit options of
        Some t \<Rightarrow> [(''hashes'', hashes_field hs), (''ratioLimit'', Number_toString env t)]
      | None \<Rightarrow>
          (case ratioLimit options of
             Some r \<Rightarrow> [(''hashes'', hashes_field hs), (''ratioLimit'', Number_toString env r)]
           | None \<Rightarrow> [(''hashes'', hashes_field hs)]))"
  by (simp add: setTorrentShareLimit_body_def split: option.splits)

lemma removeTorrentTags_body_cases:
  "removeTorrentTags_body hs tags =
     (case tags of
        None \<Rightarrow> [(''hashes'', hashes_field hs)]
      | Some ts \<Rightarrow> [(''hashes'', hashes_field hs), (''tags'', join '','' ts)])"
  by (simp add: removeTorrentTags_body_def split: option.splits)

text \<open>
  Joining keeps the elements and their order: splitting the joined string at the separator
  gives the list back, when no element holds the separator.
\<close>

lemma split_no_separator: "c \<notin> set a \<Longrightarrow> split c a = [a]"
  by (induction a) auto

lemma split_append: "c \<notin> set a \<Longrightarrow> split c (a @ c # rest) = a # split c rest"
  by (induction a) auto

lemma split_join:
  "hs \<noteq> [] \<Longrightarrow> \<forall>h \<in> set hs. c \<notin> set h \<Longrightarrow> split c (join [c] hs) = hs"
  by (induction "[c]" hs rule: join.induct) (simp_all add: split_no_separator split_append)

text \<open>
  C6, as stated, fails on \<^verbatim>\<open>renameFile\<close> (and \<^verbatim>\<open>renameFolder\<close>), which take a
  hash list or \<^verbatim>\<open>'all'\<close> as the other operations do: their form has no field
  \<^verbatim>\<open>hashes\<close>, the joined list is in the field \<^verbatim>\<open>hash\<close>.
\<close>

theorem renameFile_hashes_counterexample:
  "entries_get ''hashes'' (renameFile_body (Hashes [''h1'', ''h2'']) ''old.txt'' ''new.txt'') = None
   \<and> entries_get ''hash'' (renameFile_body (Hashes [''h1'', ''h2'']) ''old.txt'' ''new.txt'')
       = Some ''h1|h2''"
  by (simp add: renameFile_body_def entries_get_def)

text \<open>
  C6, amended. Every operation that takes a hash list or \<^verbatim>\<open>'all'\<close> puts into one form
  field the hashes joined with \<^verbatim>\<open>|\<close> in their order, so that \<^verbatim>\<open>['h1','h2']\<close> gives
  \<^verbatim>\<open>h1|h2\<close>, and \<^verbatim>\<open>all\<close> itself for \<^verbatim>\<open>'all'\<close>. The field is \<^verbatim>\<open>hashes\<close>, except
  in \<^verbatim>\<open>renameFile\<close> and \<^verbatim>\<open>renameFolder\<close>, where it is \<^verbatim>\<open>hash\<close>. The operations
  that take a hash list only join it the same way.
\<close>

theorem hashes_field_joined:
  "hashes_field (Hashes hashList) = join ''|'' hashList
   \<and> hashes_field All = ''all''
   \<and> join ''|'' [''h1'', ''h2''] = ''h1|h2''
   \<and> entries_getAll ''hashes'' (deleteTorrents_body hs deleteFiles) = [hashes_field hs]
   \<and> entries_getAll ''hashes'' (increaseTorrentPriority_body hs) = [hashes_field hs]
   \<and> entries_getAll ''hashes'' (decreaseTorrentPriority_body hs) = [hashes_field hs]
   \<and> entries_getAll ''hashes'' (maximalTorrentPriority_body hs) = [hashes_field hs]
   \<and> entries_getAll ''hashes'' (minimalTorrentPriority_body hs) = [hashes_field hs]
   \<and> entries_getAll ''hashes'' (getTorrentDownloadLimit_body hs) = [hashes_field hs]
   \<and> entries_getAll ''hashes'' (setTorrentDownloadLimit_body env hs limit) = [hashes_field hs]
   \<and> entries_getAll ''hashes'' (setTorrentShareLimit_body env hs shareOptions) = [hashes_field hs]
   \<and> entries_getAll ''hashes'' (getTorrentUploadLimit_body hs) = [hashes_field hs]
   \<and> entries_getAll ''hashes'' (setTorrentUploadLimit_body env hs limit) = [hashes_field hs]
   \<and> entries_getAll ''hashes'' (setTorrentLocation_body hs location) = [hashes_field hs]
   \<and> entries_getAll ''hashes'' (setTorrentCategory_body hs category) = [hashes_field hs]
   \<and> entries_getAll ''hashes'' (addTorrentTags_body hs tags) = [hashes_field hs]
   \<and> entries_getAll ''hashes'' (removeTorrentTags_body hs removed) = [hashes_field hs]
   \<and> entries_getAll ''hashes'' (setAutomaticTorrentManagement_body hs enable) = [hashes_field hs]
   \<and> entries_getAll ''hashes'' (toggleSequentialDownload_body hs) = [hashes_field hs]
   \<and> entries_getAll ''hashes'' (setFirstLastPiecePriority_body hs) = [hashes_field hs]
   \<and> entries_getAll ''hashes'' (setForceStart_body hs flag) = [hashes_field hs]
   \<and> entries_getAll ''hashes'' (setSuperSeeding_body hs flag) = [hashes_field hs]
   \<and> entries_getAll ''hash'' (renameFile_body hs oldPath newPath) = [hashes_field hs]
   \<and> entries_getAll ''hash'' (renameFolder_body hs oldPath newPath) = [hashes_field hs]
   \<and> entries_getAll ''hashes'' (pauseTorrents_body hashList) = [join ''|'' hashList]
   \<and> entries_getAll ''hashes'' (resumeTorrents_body hashList) = [join ''|'' hashList]
   \<and> entries_getAll ''hashes'' (recheckTorrents_body hashList) = [join ''|'' hashList]
   \<and> entries_getAll ''hashes'' (reannounceTorrents_body hashList) = [join ''|'' hashList]
   \<and> entries_getAll ''hashes'' (addPeers_body hashList peers) = [join ''|'' hashList]"
  by (simp add: entries_getAll_simps setTorrentShareLimit_body_cases removeTorrentTags_body_cases
      addPeers_body_def
      addTorrentTags_body_def
      decreaseTorrentPriority_body_def
      deleteTorrents_body_def
      getTorrentDownloadLimit_body_def
      getTorrentUploadLimit_body_def
      increaseTorrentPriority_body_def
      maximalTorrentPriority_body_def
      minimalTorrentPriority_body_def
      pauseTorrents_body_def
      reannounceTorrents_body_def
      recheckTorrents_body_def
      renameFile_body_def
      renameFolder_body_def
      resumeTorrents_body_def
      setAutomaticTorrentManagement_body_def
      setFirstLastPiecePriority_body_def
      setForceStart_body_def
      setSuperSeeding_body_def
      setTorrentCategory_body_def
      setTorrentDownloadLimit_body_def
      setTorrentLocation_body_def
      setTorrentUploadLimit_body_def
      toggleSequentialDownload_body_def
      split: option.splits)

theorem hashes_field_joined_witness:
  "entries_getAll ''hashes'' (deleteTorrents_body (Hashes [''h1'', ''h2'']) None) = [''h1|h2'']
   \<and> entries_getAll ''hashes'' (deleteTorrents_body All (Some True)) = [''all'']
   \<and> deleteTorrents_body All (Some True) = [(''hashes'', ''all''), (''deleteFiles'', ''true'')]
   \<and> entries_getAll ''hash'' (renameFile_body (Hashes [''h1'', ''h2'']) ''old.txt'' ''new.txt'')
       = [''h1|h2'']
   \<and> entries_getAll ''hashes'' (pauseTorrents_body [''h1'', ''h2'']) = [''h1|h2'']"
  using hashes_field_joined [where hs = "Hashes [''h1'', ''h2'']" and hashList = "[''h1'', ''h2'']"
      and deleteFiles = None and oldPath = "''old.txt''" and newPath = "''new.txt''"
      and env = "example_runtime version_response" and limit = 0
      and shareOptions = "\<lparr>ratioLimit = None, seedingTimeLimit = None\<rparr>"
      and location = "[]" and category = "[]" and tags = "[]" and removed = None
      and enable = None and flag = None and peers = "[]"]
    hashes_field_joined [where hs = All and hashList = "[]"
      and deleteFiles = "Some True" and oldPath = "[]" and newPath = "[]"
      and env = "example_runtime version_response" and limit = 0
      and shareOptions = "\<lparr>ratioLimit = None, seedingTimeLimit = None\<rparr>"
      and location = "[]" and category = "[]" and tags = "[]" and removed = None
      and enable = None and flag = None and peers = "[]"]
  by (simp add: deleteTorrents_body_def default_false_def Boolean_toString_def)

lemma example_shareLimits_request:
  "callMethod_request env example_client torrents ''setShareLimits'' (post b)
     = Inr \<lparr>request_url = ''http://localhost:8080/api/v2/torrents/setShareLimits'',
            request_method = POST,
            request_headers = [(''Referer'', ''http://localhost:8080'')],
            request_body = Some (URLSearchParamsBody b)\<rparr>"
  by (simp add: callMethod_request_def example_client_def post_def url_eval headers_eval)

text \<open>
  C10. When \<^verbatim>\<open>options.seedingTimeLimit\<close> is defined, the form of
  \<^verbatim>\<open>setTorrentShareLimit\<close> is the field \<^verbatim>\<open>hashes\<close> and one field \<^verbatim>\<open>ratioLimit\<close>
  that holds the seeding time limit as a string, whatever \<^verbatim>\<open>options.ratioLimit\<close> was.
  No call puts a field \<^verbatim>\<open>seedingTimeLimit\<close> into the form. The form is the body of
  the request sent.
\<close>

theorem setTorrentShareLimit_seedingTimeLimit:
  "(seedingTimeLimit options = Some t
      \<longrightarrow> setTorrentShareLimit_body env hs options
            = [(''hashes'', hashes_field hs), (''ratioLimit'', Number_toString env t)]
          \<and> entries_getAll ''ratioLimit'' (setTorrentShareLimit_body env hs options)
            = [Number_toString env t])
   \<and> \<not> entries_has ''seedingTimeLimit'' (setTorrentShareLimit_body env hs options)
   \<and> (callMethod_request env this torrents ''setShareLimits''
          (post (setTorrentShareLimit_body env hs options)) = Inr request
        \<longrightarrow> snd (setTorrentShareLimit env hs options (this, sent)) = (this, sent @ [request])
            \<and> request_body request
                = Some (URLSearchParamsBody (setTorrentShareLimit_body env hs options)))"
proof (intro conjI impI)
  assume "seedingTimeLimit options = Some t"
  then show b: "setTorrentShareLimit_body env hs options
            = [(''hashes'', hashes_field hs), (''ratioLimit'', Number_toString env t)]"
    by (simp add: setTorrentShareLimit_body_cases)
  show "entries_getAll ''ratioLimit'' (setTorrentShareLimit_body env hs options)
            = [Number_toString env t]"
    by (simp add: b entries_getAll_simps)
next
  show "\<not> entries_has ''seedingTimeLimit'' (setTorrentShareLimit_body env hs options)"
    by (simp add: setTorrentShareLimit_body_cases entries_has_simps split: option.splits)
next
  assume r: "callMethod_request env this torrents ''setShareLimits''
          (post (setTorrentShareLimit_body env hs options)) = Inr request"
  show "snd (setTorrentShareLimit env hs options (this, sent)) = (this, sent @ [request])"
    by (simp add: setTorrentShareLimit_def await_void_def callMethod_sent [OF r])
  show "request_body request
                = Some (URLSearchParamsBody (setTorrentShareLimit_body env hs options))"
    using post_request_body [OF r] by simp
qed

lemma int_toString_60: "int_toString 60 = ''60''"
  by (simp add: int_toString_def nat_toString.simps)

theorem setTorrentShareLimit_seedingTimeLimit_witness:
  "seedingTimeLimit \<lparr>ratioLimit = Some 2, seedingTimeLimit = Some (60 :: int)\<rparr> = Some 60
   \<and> setTorrentShareLimit_body (example_runtime version_response) (Hashes [''h1'', ''h2''])
         \<lparr>ratioLimit = Some 2, seedingTimeLimit = Some 60\<rparr>
       = [(''hashes'', ''h1|h2''), (''ratioLimit'', ''60'')]
   \<and> \<not> entries_has ''seedingTimeLimit''
         (setTorrentShareLimit_body (example_runtime version_response) (Hashes [''h1'', ''h2''])
            \<lparr>ratioLimit = Some 2, seedingTimeLimit = Some 60\<rparr>)
   \<and> snd (setTorrentShareLimit (example_runtime version_response) (Hashes [''h1'', ''h2''])
            \<lparr>ratioLimit = Some 2, seedingTimeLimit = Some 60\<rparr> (example_client, []))
       = (example_client,
          [\<lparr>request_url = ''http://localhost:8080/api/v2/torrents/setShareLimits'',
            request_method = POST,
            request_headers = [(''Referer'', ''http://localhost:8080'')],
            request_body = Some (URLSearchParamsBody
                                   [(''hashes'', ''h1|h2''), (''ratioLimit'', ''60'')])\<rparr>])"
proof -
  note t = setTorrentShareLimit_seedingTimeLimit [where env = "example_runtime version_response"
      and hs = "Hashes [''h1'', ''h2'']"
      and options = "\<lparr>ratioLimit = Some 2, seedingTimeLimit = Some 60\<rparr>" and t = 60
      and this = example_client and sent = "[]"]
  have n: "Number_toString (example_runtime version_response) 60 = ''60''"
    by (simp add: example_runtime_def int_toString_60)
  have b: "setTorrentShareLimit_body (example_runtime version_response) (Hashes [''h1'', ''h2''])
         \<lparr>ratioLimit = Some 2, seedingTimeLimit = Some 60\<rparr>
       = [(''hashes'', ''h1|h2''), (''ratioLimit'', ''60'')]"
    using t [THEN conjunct1] by (simp add: n)
  have s: "snd (setTorrentShareLimit (example_runtime version_response) (Hashes [''h1'', ''h2''])
            \<lparr>ratioLimit = Some 2, seedingTimeLimit = Some 60\<rparr> (example_client, []))
       = (example_client,
          [\<lparr>request_url = ''http://localhost:8080/api/v2/torrents/setShareLimits'',
            request_method = POST,
            request_headers = [(''Referer'', ''http://localhost:8080'')],
            request_body = Some (URLSearchParamsBody
                                   [(''hashes'', ''h1|h2''), (''ratioLimit'', ''60'')])\<rparr>])"
    using t [THEN conjunct2, THEN conjunct2, THEN mp, OF example_shareLimits_request]
    by (simp add: b)
  show ?thesis
    using t [THEN conjunct2, THEN conjunct1] b s by simp
qed

section \<open>The form of \<^verbatim>\<open>addNewTorrent\<close>\<close>

lemma entries_set_fresh:
  "name \<notin> fst ` set es \<Longrightarrow> entries_set name v es = es @ [(name, v)]"
  by (induction es) auto

lemma option_entry_key:
  "fst (option_entry env opt) \<noteq> ''urls'' \<and> fst (option_entry env opt) \<noteq> ''torrents''"
  by (cases opt) simp_all

lemma string_elements_set: "s \<in> set (string_elements ts) \<longleftrightarrow> TString s \<in> set ts"
  by (induction ts rule: string_elements.induct) auto

lemma binary_part_None:
  "readable env t \<Longrightarrow> (binary_part env t = None) = link_element t"
  by (cases t) (auto simp add: readable_def binary_part_def link_element_def split: sum.splits)

lemma addNewTorrent_loop_parts:
  assumes "\<forall>t \<in> set ts. readable env t"
    and "\<forall>s. TString s \<in> set ts \<longrightarrow> (s \<in> set urls \<longleftrightarrow> is_link s)"
  shows "addNewTorrent_loop env urls ts form
           = Resolved (form @ map (\<lambda>b. (''torrents'', File b)) (List.map_filter (binary_part env) ts))"
  using assms
proof (induction ts arbitrary: form)
  case Nil
  then show ?case by (simp add:)
next
  case (Cons t ts)
  then have rest: "\<And>form'. addNewTorrent_loop env urls ts form'
      = Resolved (form' @ map (\<lambda>b. (''torrents'', File b)) (List.map_filter (binary_part env) ts))"
    by simp
  from Cons.prems have here: "readable env t" by simp
  show ?case
  proof (cases t)
    case (TString s)
    with Cons.prems(2) have urls: "s \<in> set urls \<longleftrightarrow> is_link s" by simp
    show ?thesis
    proof (cases "is_link s")
      case True
      then have "binary_part env t = None"
        by (simp add: TString binary_part_def)
      with True urls show ?thesis
        by (simp add: TString rest)
    next
      case False
      with here obtain bytes where read: "readFileSync env s = Inr bytes"
        by (auto simp add: TString readable_def split: sum.splits)
      with False read have "binary_part env t = Some \<lparr>blob_bytes = bytes, blob_type = bittorrent\<rparr>"
        by (simp add: TString binary_part_def)
      with False urls read show ?thesis
        by (simp add: TString rest)
    qed
  next
    case (TBlob b)
    then have "binary_part env t = Some b"
      by (simp add: binary_part_def)
    with TBlob show ?thesis
      by (simp add: rest)
  next
    case (TBuffer buf)
    then have "binary_part env t = Some \<lparr>blob_bytes = buf, blob_type = bittorrent\<rparr>"
      by (simp add: binary_part_def)
    with TBuffer show ?thesis
      by (simp add: rest)
  next
    case (TStream st)
    then have "binary_part env t = Some \<lparr>blob_bytes = concat (chunks st), blob_type = bittorrent\<rparr>"
      by (simp add: binary_part_def)
    moreover from here have "ends st"
      by (simp add: TStream readable_def)
    ultimately show ?thesis
      by (simp add: TStream rest)
  qed
qed

lemma option_entries_no_urls: "''urls'' \<notin> fst ` set (map (option_entry env) os)"
  using option_entry_key [of env] by (induction os) (auto simp add: eq_commute)

lemma formdata_request_body:
  "callMethod_request env this apiName methodName
     (Some \<lparr>method = Some POST, query = None, body = Some (FormDataBody form), headers = None\<rparr>)
     = Inr request \<Longrightarrow>
   request_method request = POST \<and> request_body request = Some (FormDataBody form)"
  by (auto simp add: callMethod_request_def Let_def split: option.splits sum.splits if_splits)

text \<open>
  C7. When every path among the elements can be read and every stream ends, the form that
  \<^verbatim>\<open>addNewTorrent\<close> builds is: one field for each option given, in their order; then
  one field \<^verbatim>\<open>urls\<close> that holds the link strings, in their order, joined with newlines;
  then one part \<^verbatim>\<open>torrents\<close> for each other element, in their order: the content of the
  file for a path, the blob itself, the bytes of a buffer, the concatenated chunks of a
  stream. An element has no part exactly when it is a link string. This form is the body of
  the request sent.
\<close>

theorem addNewTorrent_partition:
  assumes "\<forall>t \<in> set ts. readable env t"
  shows "addNewTorrent_body env ts options
           = Resolved
               (map (option_entry env) (case options of None \<Rightarrow> [] | Some os \<Rightarrow> os)
                @ [(''urls'', Field (join [CHR 0x0A] (filter is_link (string_elements ts))))]
                @ map (\<lambda>b. (''torrents'', File b)) (List.map_filter (binary_part env) ts))
         \<and> (\<forall>t \<in> set ts. (binary_part env t = None) = link_element t)
         \<and> (\<forall>form request.
               addNewTorrent_body env ts options = Resolved form
               \<and> callMethod_request env this torrents ''add''
                    (Some \<lparr>method = Some POST, query = None, body = Some (FormDataBody form),
                           headers = None\<rparr>) = Inr request
               \<longrightarrow> snd (addNewTorrent env ts options (this, sent)) = (this, sent @ [request])
                   \<and> request_body request = Some (FormDataBody form))"
proof (intro conjI allI impI)
  let ?opts = "case options of None \<Rightarrow> [] | Some os \<Rightarrow> os"
  have "''urls'' \<notin> fst ` set (map (option_entry env) ?opts)"
    by (rule option_entries_no_urls)
  then have urls: "entries_set ''urls'' v (map (option_entry env) ?opts)
      = map (option_entry env) ?opts @ [(''urls'', v)]" for v
    by (rule entries_set_fresh)
  have "\<forall>s. TString s \<in> set ts
          \<longrightarrow> (s \<in> set (filter is_link (string_elements ts)) \<longleftrightarrow> is_link s)"
    by (simp add: string_elements_set)
  then show "addNewTorrent_body env ts options
           = Resolved
               (map (option_entry env) ?opts
                @ [(''urls'', Field (join [CHR 0x0A] (filter is_link (string_elements ts))))]
                @ map (\<lambda>b. (''torrents'', File b)) (List.map_filter (binary_part env) ts))"
    using assms by (simp add: addNewTorrent_body_def Let_def urls addNewTorrent_loop_parts)
  show "\<forall>t \<in> set ts. (binary_part env t = None) = link_element t"
    using assms by (simp add: binary_part_None)
next
  fix form request
  assume a: "addNewTorrent_body env ts options = Resolved form
               \<and> callMethod_request env this torrents ''add''
                    (Some \<lparr>method = Some POST, query = None, body = Some (FormDataBody form),
                           headers = None\<rparr>) = Inr request"
  then show "snd (addNewTorrent env ts options (this, sent)) = (this, sent @ [request])"
    by (simp add: addNewTorrent_def await_void_def callMethod_sent)
  from a show "request_body request = Some (FormDataBody form)"
    using formdata_request_body [of env this torrents "''add''" form request] by simp
qed

lemma int_toString_1024: "int_toString 1024 = ''1024''"
  by (simp add: int_toString_def nat_toString.simps)

lemma example_add_request:
  "callMethod_request env example_client torrents ''add''
     (Some \<lparr>method = Some POST, query = None, body = Some (FormDataBody form), headers = None\<rparr>)
     = Inr \<lparr>request_url = ''http://localhost:8080/api/v2/torrents/add'',
            request_method = POST,
            request_headers = [(''Referer'', ''http://localhost:8080'')],
            request_body = Some (FormDataBody form)\<rparr>"
  by (simp add: callMethod_request_def example_client_def url_eval headers_eval)

theorem addNewTorrent_partition_witness:
  "readable (example_runtime version_response) (TString ''magnet:?xt=urn:btih:abc'')
   \<and> readable (example_runtime version_response) (TString ''/tmp/a.torrent'')
   \<and> readable (example_runtime version_response)
        (TStream \<lparr>chunks = [''d4:'', ''infoe''], ends = True\<rparr>)
   \<and> addNewTorrent_body (example_runtime version_response)
        [TString ''magnet:?xt=urn:btih:abc'', TString ''/tmp/a.torrent'', TBuffer ''d4:infoe'',
         TString ''https://example.com/b.torrent'',
         TBlob \<lparr>blob_bytes = ''d1:ae'', blob_type = []\<rparr>,
         TStream \<lparr>chunks = [''d4:'', ''infoe''], ends = True\<rparr>]
        (Some [Opt_category ''movies'', Opt_upLimit 1024])
       = Resolved
           [(''category'', Field ''movies''), (''upLimit'', Field ''1024''),
            (''urls'', Field (''magnet:?xt=urn:btih:abc'' @ [CHR 0x0A]
                               @ ''https://example.com/b.torrent'')),
            (''torrents'', File \<lparr>blob_bytes = ''d8:announce0:e'',
                                  blob_type = ''application/x-bittorrent''\<rparr>),
            (''torrents'', File \<lparr>blob_bytes = ''d4:infoe'',
                                  blob_type = ''application/x-bittorrent''\<rparr>),
            (''torrents'', File \<lparr>blob_bytes = ''d1:ae'', blob_type = []\<rparr>),
            (''torrents'', File \<lparr>blob_bytes = ''d4:infoe'',
                                  blob_type = ''application/x-bittorrent''\<rparr>)]
   \<and> snd (addNewTorrent (example_runtime version_response)
        [TString ''magnet:?xt=urn:btih:abc'', TString ''/tmp/a.torrent'', TBuffer ''d4:infoe'',
         TString ''https://example.com/b.torrent'',
         TBlob \<lparr>blob_bytes = ''d1:ae'', blob_type = []\<rparr>,
         TStream \<lparr>chunks = [''d4:'', ''infoe''], ends = True\<rparr>]
        (Some [Opt_category ''movies'', Opt_upLimit 1024]) (example_client, []))
       = (example_client,
          [\<lparr>request_url = ''http://localhost:8080/api/v2/torrents/add'',
            request_method = POST,
            request_headers = [(''Referer'', ''http://localhost:8080'')],
            request_body = Some (FormDataBody
              [(''category'', Field ''movies''), (''upLimit'', Field ''1024''),
               (''urls'', Field (''magnet:?xt=urn:btih:abc'' @ [CHR 0x0A]
                                  @ ''https://example.com/b.torrent'')),
               (''torrents'', File \<lparr>blob_bytes = ''d8:announce0:e'',
                                     blob_type = ''application/x-bittorrent''\<rparr>),
               (''torrents'', File \<lparr>blob_bytes = ''d4:infoe'',
                                     blob_type = ''application/x-bittorrent''\<rparr>),
               (''torrents'', File \<lparr>blob_bytes = ''d1:ae'', blob_type = []\<rparr>),
               (''torrents'', File \<lparr>blob_bytes = ''d4:infoe'',
                                     blob_type = ''application/x-bittorrent''\<rparr>)])\<rparr>])"
proof -
  let ?env = "example_runtime version_response"
  let ?ts = "[TString ''magnet:?xt=urn:btih:abc'', TString ''/tmp/a.torrent'', TBuffer ''d4:infoe'',
         TString ''https://example.com/b.torrent'',
         TBlob \<lparr>blob_bytes = ''d1:ae'', blob_type = []\<rparr>,
         TStream \<lparr>chunks = [''d4:'', ''infoe''], ends = True\<rparr>]"
  let ?options = "Some [Opt_category ''movies'', Opt_upLimit (1024 :: int)]"
  let ?form = "[(''category'', Field ''movies''), (''upLimit'', Field ''1024''),
               (''urls'', Field (''magnet:?xt=urn:btih:abc'' @ [CHR 0x0A]
                                  @ ''https://example.com/b.torrent'')),
               (''torrents'', File \<lparr>blob_bytes = ''d8:announce0:e'',
                                     blob_type = ''application/x-bittorrent''\<rparr>),
               (''torrents'', File \<lparr>blob_bytes = ''d4:infoe'',
                                     blob_type = ''application/x-bittorrent''\<rparr>),
               (''torrents'', File \<lparr>blob_bytes = ''d1:ae'', blob_type = []\<rparr>),
               (''torrents'', File \<lparr>blob_bytes = ''d4:infoe'',
                                     blob_type = ''application/x-bittorrent''\<rparr>)]"
  have n: "Number_toString ?env 1024 = ''1024''"
    by (simp add: example_runtime_def int_toString_1024)
  have f: "readFileSync ?env ''/tmp/a.torrent'' = Inr ''d8:announce0:e''"
    by (simp add: example_runtime_def)
  have r: "\<forall>t \<in> set ?ts. readable ?env t"
    by (simp add: readable_def is_link_def startsWith_def f)
  note t = addNewTorrent_partition [OF r, of ?options example_client "[]"]
  have form: "addNewTorrent_body ?env ?ts ?options = Resolved ?form"
    using t [THEN conjunct1]
    by (simp add: n f binary_part_def is_link_def startsWith_def bittorrent_def)
  have sent: "snd (addNewTorrent ?env ?ts ?options (example_client, []))
      = (example_client,
         [\<lparr>request_url = ''http://localhost:8080/api/v2/torrents/add'',
           request_method = POST,
           request_headers = [(''Referer'', ''http://localhost:8080'')],
           request_body = Some (FormDataBody ?form)\<rparr>])"
    using t [THEN conjunct2, THEN conjunct2, THEN spec, THEN spec, THEN mp,
        OF conjI [OF form example_add_request]]
    by simp
  show ?thesis
    using r form sent by simp
qed

end
